theory Spec2Isabelle
  imports Complex_Main
begin

section \<open>Python values\<close>

subsection \<open>Strings\<close>

text \<open>
  A Python \<open>str\<close> is modelled by the list of its UTF-8 bytes. The operations the
  program uses (\<open>startswith\<close>, \<open>find\<close> and \<open>rfind\<close> of an ASCII character, slicing
  between two positions found that way, \<open>strip\<close>, \<open>replace\<close>, \<open>in\<close>) give the same
  result on the bytes as on the code points; positions count bytes, so only
  their order and the slices they cut are meaningful. The non-ASCII markers of
  the source are written as their bytes.
\<close>

definition cross_mark :: string where
  "cross_mark = [CHR 0xE2, CHR 0x9D, CHR 0x8C]"

definition warning_sign :: string where
  "warning_sign = [CHR 0xE2, CHR 0x9A, CHR 0xA0, CHR 0xEF, CHR 0xB8, CHR 0x8F]"

definition check_mark :: string where
  "check_mark = [CHR 0xE2, CHR 0x9C, CHR 0x85]"

definition startswith :: "string \<Rightarrow> string \<Rightarrow> bool" where
  "startswith s p = (take (length p) s = p)"

text \<open>
  The characters \<open>str.strip\<close> removes (and \<open>\s\<close> matches): the ASCII ones, and
  the UTF-8 encodings of U+0085, U+00A0, U+1680, U+2000 to U+200A, U+2028, U+2029,
  U+202F, U+205F and U+3000.
\<close>

definition ascii_space :: "char \<Rightarrow> bool" where
  "ascii_space c = (c \<in> set [CHR 0x09, CHR 0x0A, CHR 0x0B, CHR 0x0C, CHR 0x0D,
                              CHR 0x1C, CHR 0x1D, CHR 0x1E, CHR 0x1F, CHR 0x20])"

definition unicode_spaces :: "string list" where
  "unicode_spaces =
     [[CHR 0xC2, CHR 0x85], [CHR 0xC2, CHR 0xA0], [CHR 0xE1, CHR 0x9A, CHR 0x80],
      [CHR 0xE2, CHR 0x80, CHR 0x80], [CHR 0xE2, CHR 0x80, CHR 0x81],
      [CHR 0xE2, CHR 0x80, CHR 0x82], [CHR 0xE2, CHR 0x80, CHR 0x83],
      [CHR 0xE2, CHR 0x80, CHR 0x84], [CHR 0xE2, CHR 0x80, CHR 0x85],
      [CHR 0xE2, CHR 0x80, CHR 0x86], [CHR 0xE2, CHR 0x80, CHR 0x87],
      [CHR 0xE2, CHR 0x80, CHR 0x88], [CHR 0xE2, CHR 0x80, CHR 0x89],
      [CHR 0xE2, CHR 0x80, CHR 0x8A], [CHR 0xE2, CHR 0x80, CHR 0xA8],
      [CHR 0xE2, CHR 0x80, CHR 0xA9], [CHR 0xE2, CHR 0x80, CHR 0xAF],
      [CHR 0xE2, CHR 0x81, CHR 0x9F], [CHR 0xE3, CHR 0x80, CHR 0x80]]"

text \<open>The number of bytes of the whitespace character \<open>s\<close> starts with (0 when it starts with none).\<close>

definition space_len :: "string list \<Rightarrow> string \<Rightarrow> nat" where
  "space_len pats s =
     (case s of
        [] \<Rightarrow> 0
      | c # cs \<Rightarrow>
          if ascii_space c then 1
          else (case find (startswith s) pats of Some p \<Rightarrow> length p | None \<Rightarrow> 0))"

function strip_left :: "string list \<Rightarrow> string \<Rightarrow> string" where
  "strip_left pats s =
     (if space_len pats s = 0 then s else strip_left pats (drop (space_len pats s) s))"
  by pat_completeness auto
termination
  by (relation "measure (\<lambda>(pats, s). length s)") (auto simp: space_len_def split: list.splits)

definition py_lstrip :: "string \<Rightarrow> string" where
  "py_lstrip s = strip_left unicode_spaces s"

definition py_rstrip :: "string \<Rightarrow> string" where
  "py_rstrip s = rev (strip_left (map rev unicode_spaces) (rev s))"

definition py_strip :: "string \<Rightarrow> string" where
  "py_strip s = py_lstrip (py_rstrip s)"

subsection \<open>Exceptions\<close>

text \<open>
  An exception is its class and the text \<open>str(e)\<close> gives. Only the classes the
  program's handlers tell apart are kept apart; every class is a subclass of
  \<open>Exception\<close>.
\<close>

datatype exc_class =
  KeyError | IndexError | TypeError | AttributeError | JSONDecodeError
  | RequestException | OtherException

datatype py_exc = PyExc exc_class string

fun exc_str :: "py_exc \<Rightarrow> string" where
  "exc_str (PyExc c msg) = msg"

fun exc_cls :: "py_exc \<Rightarrow> exc_class" where
  "exc_cls (PyExc c msg) = c"

section \<open>The vector store (tools/faiss\_utils.py)\<close>

text \<open>
  A FAISS flat index is the list of the vectors added to it, in insertion
  order; a corpus is the list of \<open>(text, meta)\<close> pairs. The embedding model is a
  parameter \<open>encode\<close>. The handler keeps three dictionaries keyed by data type;
  the disk holds, per path, an index file or a corpus file. Locks are left out:
  the model is sequential.
\<close>

record ('v, 'm) faiss_handler =
  base_dir :: string
  indices :: "string \<rightharpoonup> 'v list"
  corpora :: "string \<rightharpoonup> (string \<times> 'm) list"
  loaded_types :: "string set"

record ('v, 'm) disk =
  index_files :: "string \<rightharpoonup> 'v list"
  corpus_files :: "string \<rightharpoonup> (string \<times> 'm) list"

record ('m) search_result =
  res_text :: string
  res_meta :: 'm
  res_similarity :: rat

definition FaissHandler :: "string \<Rightarrow> ('v, 'm) faiss_handler" where
  "FaissHandler dir =
     \<lparr>base_dir = dir, indices = Map.empty, corpora = Map.empty, loaded_types = {}\<rparr>"

definition path_join :: "string \<Rightarrow> string \<Rightarrow> string" where
  "path_join a b =
     (if b \<noteq> [] \<and> hd b = CHR ''/'' then b
      else if a = [] \<or> last a = CHR ''/'' then a @ b
      else a @ ''/'' @ b)"

definition get_index_file :: "('v, 'm) faiss_handler \<Rightarrow> string \<Rightarrow> string" where
  "get_index_file h data_type = path_join (base_dir h) (''faiss_index_'' @ data_type @ ''.bin'')"

definition get_corpus_file :: "('v, 'm) faiss_handler \<Rightarrow> string \<Rightarrow> string" where
  "get_corpus_file h data_type = path_join (base_dir h) (''faiss_corpus_'' @ data_type @ ''.pkl'')"

definition ensure_loaded ::
  "('v, 'm) faiss_handler \<Rightarrow> ('v, 'm) disk \<Rightarrow> string \<Rightarrow> ('v, 'm) faiss_handler" where
  "ensure_loaded h d data_type =
     (if data_type \<in> loaded_types h then h
      else
        let index = (case index_files d (get_index_file h data_type) of
                       Some ix \<Rightarrow> ix | None \<Rightarrow> []);
            h1 = h\<lparr>indices := (indices h)(data_type \<mapsto> index)\<rparr>;
            corpus = (case corpus_files d (get_corpus_file h1 data_type) of
                        Some c \<Rightarrow> c | None \<Rightarrow> []);
            h2 = h1\<lparr>corpora := (corpora h1)(data_type \<mapsto> corpus)\<rparr>
        in h2\<lparr>loaded_types := insert data_type (loaded_types h2)\<rparr>)"

definition save ::
  "('v, 'm) faiss_handler \<Rightarrow> ('v, 'm) disk \<Rightarrow> string
     \<Rightarrow> (py_exc + unit) \<times> ('v, 'm) faiss_handler \<times> ('v, 'm) disk" where
  "save h d data_type =
     (let h1 = ensure_loaded h d data_type in
      case indices h1 data_type of
        None \<Rightarrow> (Inl (PyExc KeyError data_type), h1, d)
      | Some ix \<Rightarrow>
          let d1 = d\<lparr>index_files := (index_files d)(get_index_file h1 data_type \<mapsto> ix)\<rparr> in
          (case corpora h1 data_type of
             None \<Rightarrow> (Inl (PyExc KeyError data_type), h1, d1)
           | Some c \<Rightarrow>
               (Inr (), h1,
                d1\<lparr>corpus_files := (corpus_files d1)(get_corpus_file h1 data_type \<mapsto> c)\<rparr>)))"

definition empty_text_msg :: string where
  "empty_text_msg = warning_sign @ '' Empty text, cannot embed.''"

definition stored_msg :: string where
  "stored_msg = check_mark @ '' Stored in FAISS.''"

definition add ::
  "(string \<Rightarrow> 'v) \<Rightarrow> ('v, 'm) faiss_handler \<Rightarrow> ('v, 'm) disk \<Rightarrow> string \<Rightarrow> 'm \<Rightarrow> string
     \<Rightarrow> (py_exc + string) \<times> ('v, 'm) faiss_handler \<times> ('v, 'm) disk" where
  "add encode h d text meta data_type =
     (let h1 = ensure_loaded h d data_type in
      if py_strip text = [] then (Inr empty_text_msg, h1, d)
      else
        case indices h1 data_type of
          None \<Rightarrow> (Inl (PyExc KeyError data_type), h1, d)
        | Some ix \<Rightarrow>
            let h2 = h1\<lparr>indices := (indices h1)(data_type \<mapsto> ix @ [encode text])\<rparr> in
            (case corpora h2 data_type of
               None \<Rightarrow> (Inl (PyExc KeyError data_type), h2, d)
             | Some c \<Rightarrow>
                 let h3 = h2\<lparr>corpora := (corpora h2)(data_type \<mapsto> c @ [(text, meta)])\<rparr> in
                 (case save h3 d data_type of
                    (Inl e, h4, d4) \<Rightarrow> (Inl e, h4, d4)
                  | (Inr u, h4, d4) \<Rightarrow> (Inr stored_msg, h4, d4))))"

text \<open>
  Python's \<open>xs[i]\<close>: a negative index counts from the end, and an index outside
  \<open>-len(xs) .. len(xs) - 1\<close> raises IndexError.
\<close>

definition py_index :: "'a list \<Rightarrow> int \<Rightarrow> py_exc + 'a" where
  "py_index xs i =
     (if 0 \<le> i \<and> i < int (length xs) then Inr (xs ! nat i)
      else if i < 0 \<and> - int (length xs) \<le> i then Inr (xs ! nat (int (length xs) + i))
      else Inl (PyExc IndexError ''list index out of range''))"

text \<open>
  The loop of \<open>search\<close> over the neighbours the index returned: \<open>I[0]\<close> and \<open>D[0]\<close>
  zipped, a label first and its distance second.
\<close>

fun collect_results ::
  "(string \<times> 'm) list \<Rightarrow> ('m \<Rightarrow> bool) option \<Rightarrow> (int \<times> rat) list
     \<Rightarrow> py_exc + 'm search_result list" where
  "collect_results corpus filter_fn [] = Inr []"
| "collect_results corpus filter_fn ((i, distance) # rest) =
     (if i < int (length corpus) then
        (case py_index corpus i of
           Inl e \<Rightarrow> Inl e
         | Inr (text, meta) \<Rightarrow>
             let similarity_score = 1 - distance;
                 keep = (case filter_fn of None \<Rightarrow> True | Some f \<Rightarrow> f meta)
             in (case collect_results corpus filter_fn rest of
                   Inl e \<Rightarrow> Inl e
                 | Inr results \<Rightarrow>
                     Inr (if keep
                          then \<lparr>res_text = text, res_meta = meta,
                                res_similarity = similarity_score\<rparr> # results
                          else results)))
      else collect_results corpus filter_fn rest)"

text \<open>
  \<open>index_search ix q k\<close> stands for \<open>index.search(q, k)\<close> of the FAISS library: the
  \<open>k\<close> labels and distances of its first row.
\<close>

definition search ::
  "(string \<Rightarrow> 'v) \<Rightarrow> ('v list \<Rightarrow> 'v \<Rightarrow> int \<Rightarrow> (int \<times> rat) list)
     \<Rightarrow> ('v, 'm) faiss_handler \<Rightarrow> ('v, 'm) disk \<Rightarrow> string \<Rightarrow> string \<Rightarrow> int
     \<Rightarrow> ('m \<Rightarrow> bool) option
     \<Rightarrow> (py_exc + 'm search_result list) \<times> ('v, 'm) faiss_handler" where
  "search encode index_search h d query_text data_type top_k filter_fn =
     (let h1 = ensure_loaded h d data_type in
      case corpora h1 data_type of
        None \<Rightarrow> (Inl (PyExc KeyError data_type), h1)
      | Some corpus \<Rightarrow>
          if corpus = [] then (Inr [], h1)
          else
            (case indices h1 data_type of
               None \<Rightarrow> (Inl (PyExc KeyError data_type), h1)
             | Some ix \<Rightarrow>
                 (collect_results corpus filter_fn
                    (index_search ix (encode query_text) top_k), h1)))"

definition get_corpus ::
  "('v, 'm) faiss_handler \<Rightarrow> ('v, 'm) disk \<Rightarrow> string
     \<Rightarrow> (py_exc + (string \<times> 'm) list) \<times> ('v, 'm) faiss_handler" where
  "get_corpus h d data_type =
     (let h1 = ensure_loaded h d data_type in
      case corpora h1 data_type of
        None \<Rightarrow> (Inl (PyExc KeyError data_type), h1)
      | Some corpus \<Rightarrow> (Inr corpus, h1))"

definition clear ::
  "('v, 'm) faiss_handler \<Rightarrow> ('v, 'm) disk \<Rightarrow> string
     \<Rightarrow> (py_exc + unit) \<times> ('v, 'm) faiss_handler \<times> ('v, 'm) disk" where
  "clear h d data_type =
     (let h1 = h\<lparr>indices := (indices h)(data_type \<mapsto> [])\<rparr>;
          h2 = h1\<lparr>corpora := (corpora h1)(data_type \<mapsto> [])\<rparr>
      in save h2 d data_type)"

subsection \<open>Values, dictionaries and the operations that can raise\<close>

text \<open>
  The values \<open>json.loads\<close> and \<open>response.json()\<close> return, which are also the
  values the program's dictionaries hold. A dictionary is the list of its
  items in insertion order, its keys distinct. A float is the rational it
  denotes: rounding, infinities and NaN are outside the model.
\<close>

datatype json =
    JNull
  | JBool bool
  | JInt int
  | JFloat rat
  | JString string
  | JArray "json list"
  | JObject "(string \<times> json) list"

text \<open>
  The two library functions the program calls on values and cannot be written
  out here: \<open>json.loads\<close> and the built-in \<open>str\<close> (what an f-string prints for a
  value).
\<close>

record pylib =
  json_loads :: "string \<Rightarrow> py_exc + json"
  py_str :: "json \<Rightarrow> string"

definition try_bind :: "py_exc + 'a \<Rightarrow> ('a \<Rightarrow> py_exc + 'b) \<Rightarrow> py_exc + 'b" where
  "try_bind r f = (case r of Inl e \<Rightarrow> Inl e | Inr v \<Rightarrow> f v)"

fun type_name :: "json \<Rightarrow> string" where
  "type_name JNull = ''NoneType''"
| "type_name (JBool b) = ''bool''"
| "type_name (JInt i) = ''int''"
| "type_name (JFloat r) = ''float''"
| "type_name (JString s) = ''str''"
| "type_name (JArray xs) = ''list''"
| "type_name (JObject kvs) = ''dict''"

definition quoted :: "string \<Rightarrow> string" where
  "quoted s = [CHR 0x27] @ s @ [CHR 0x27]"

fun py_truthy :: "json \<Rightarrow> bool" where
  "py_truthy JNull = False"
| "py_truthy (JBool b) = b"
| "py_truthy (JInt i) = (i \<noteq> 0)"
| "py_truthy (JFloat r) = (r \<noteq> 0)"
| "py_truthy (JString s) = (s \<noteq> [])"
| "py_truthy (JArray xs) = (xs \<noteq> [])"
| "py_truthy (JObject kvs) = (kvs \<noteq> [])"

fun isinstance_dict :: "json \<Rightarrow> bool" where
  "isinstance_dict (JObject kvs) = True"
| "isinstance_dict v = False"

fun isinstance_list :: "json \<Rightarrow> bool" where
  "isinstance_list (JArray xs) = True"
| "isinstance_list v = False"

text \<open>\<open>sub in s\<close> for two strings.\<close>

primrec contains :: "string \<Rightarrow> string \<Rightarrow> bool" where
  "contains [] sub = (sub = [])"
| "contains (c # cs) sub = (startswith (c # cs) sub \<or> contains cs sub)"

text \<open>\<open>key in v\<close> for a string \<open>key\<close>.\<close>

fun py_in :: "string \<Rightarrow> json \<Rightarrow> py_exc + bool" where
  "py_in key (JObject kvs) = Inr (key \<in> set (map fst kvs))"
| "py_in key (JArray xs) = Inr (JString key \<in> set xs)"
| "py_in key (JString s) = Inr (contains s key)"
| "py_in key v =
     Inl (PyExc TypeError (''argument of type '' @ quoted (type_name v) @ '' is not iterable''))"

text \<open>\<open>v[key]\<close> for a string \<open>key\<close>.\<close>

fun py_getitem :: "json \<Rightarrow> string \<Rightarrow> py_exc + json" where
  "py_getitem (JObject kvs) key =
     (case map_of kvs key of
        Some v \<Rightarrow> Inr v
      | None \<Rightarrow> Inl (PyExc KeyError (quoted key)))"
| "py_getitem (JArray xs) key =
     Inl (PyExc TypeError ''list indices must be integers or slices, not str'')"
| "py_getitem (JString s) key =
     Inl (PyExc TypeError (''string indices must be integers, not '' @ quoted ''str''))"
| "py_getitem v key =
     Inl (PyExc TypeError (quoted (type_name v) @ '' object is not subscriptable''))"

text \<open>The bytes of the first character of a string, from its leading byte.\<close>

definition first_char :: "string \<Rightarrow> string" where
  "first_char s =
     (case s of
        [] \<Rightarrow> []
      | c # cs \<Rightarrow>
          let b = (of_char c :: nat)
          in take (if b < 0x80 then 1 else if b < 0xE0 then 2 else if b < 0xF0 then 3 else 4) s)"

text \<open>\<open>v[0]\<close>.\<close>

fun py_getitem0 :: "json \<Rightarrow> py_exc + json" where
  "py_getitem0 (JArray xs) = py_index xs 0"
| "py_getitem0 (JString s) =
     (if s = [] then Inl (PyExc IndexError ''string index out of range'')
      else Inr (JString (first_char s)))"
| "py_getitem0 (JObject kvs) = Inl (PyExc KeyError ''0'')"
| "py_getitem0 v =
     Inl (PyExc TypeError (quoted (type_name v) @ '' object is not subscriptable''))"

text \<open>\<open>v.get(key, default)\<close>.\<close>

fun py_get :: "json \<Rightarrow> string \<Rightarrow> json \<Rightarrow> py_exc + json" where
  "py_get (JObject kvs) key dflt =
     Inr (case map_of kvs key of Some v \<Rightarrow> v | None \<Rightarrow> dflt)"
| "py_get v key dflt =
     Inl (PyExc AttributeError
            (quoted (type_name v) @ '' object has no attribute '' @ quoted ''get''))"

text \<open>
  \<open>str.lower\<close> and \<open>str.capitalize\<close> on the ASCII letters; the other bytes are
  kept. No character outside ASCII lowers to one of the letters of
  \<open>rate limit\<close> followed by the next one, so the test the client makes with
  \<open>lower\<close> is the same on the bytes.
\<close>

definition upper_letters :: string where
  "upper_letters = ''ABCDEFGHIJKLMNOPQRSTUVWXYZ''"

definition lower_letters :: string where
  "lower_letters = ''abcdefghijklmnopqrstuvwxyz''"

definition lower_char :: "char \<Rightarrow> char" where
  "lower_char c =
     (case map_of (zip upper_letters lower_letters) c of Some l \<Rightarrow> l | None \<Rightarrow> c)"

definition upper_char :: "char \<Rightarrow> char" where
  "upper_char c =
     (case map_of (zip lower_letters upper_letters) c of Some u \<Rightarrow> u | None \<Rightarrow> c)"

definition py_lower :: "string \<Rightarrow> string" where
  "py_lower s = map lower_char s"

definition capitalize :: "string \<Rightarrow> string" where
  "capitalize s = (case s of [] \<Rightarrow> [] | c # cs \<Rightarrow> upper_char c # map lower_char cs)"

text \<open>\<open>v.lower()\<close>.\<close>

fun py_lower_of :: "json \<Rightarrow> py_exc + string" where
  "py_lower_of (JString s) = Inr (py_lower s)"
| "py_lower_of v =
     Inl (PyExc AttributeError
            (quoted (type_name v) @ '' object has no attribute '' @ quoted ''lower''))"

text \<open>What an f-string prints for an integer.\<close>

function str_nat :: "nat \<Rightarrow> string" where
  "str_nat n =
     (if n < 10 then [''0123456789'' ! n] else str_nat (n div 10) @ [''0123456789'' ! (n mod 10)])"
  by pat_completeness auto
termination
  by (relation "measure id") auto

definition str_int :: "int \<Rightarrow> string" where
  "str_int i = (if i < 0 then ''-'' @ str_nat (nat (- i)) else str_nat (nat i))"

text \<open>
  What an f-string prints for a value: written out for \<open>None\<close>, booleans,
  integers and strings, and left to the library for floats, lists and
  dictionaries.
\<close>

definition str_of :: "pylib \<Rightarrow> json \<Rightarrow> string" where
  "str_of lib v =
     (case v of
        JString s \<Rightarrow> s
      | JInt i \<Rightarrow> str_int i
      | JNull \<Rightarrow> ''None''
      | JBool b \<Rightarrow> (if b then ''True'' else ''False'')
      | other \<Rightarrow> py_str lib other)"

text \<open>
  \<open>s.find(c)\<close> and \<open>s.rfind(c)\<close> for a character \<open>c\<close>: the position of its first
  (last) occurrence, or -1.
\<close>

fun py_find :: "string \<Rightarrow> char \<Rightarrow> int" where
  "py_find [] c = -1"
| "py_find (x # xs) c =
     (if x = c then 0 else (let k = py_find xs c in if k = -1 then -1 else k + 1))"

definition py_rfind :: "string \<Rightarrow> char \<Rightarrow> int" where
  "py_rfind s c =
     (let k = py_find (rev s) c in if k = -1 then -1 else int (length s) - 1 - k)"

text \<open>\<open>xs[lo:hi]\<close>: a negative bound counts from the end, and both are clamped to the list.\<close>

definition slice_bound :: "nat \<Rightarrow> int \<Rightarrow> nat" where
  "slice_bound n i = (if i < 0 then nat (max (int n + i) 0) else min (nat i) n)"

definition py_slice :: "'a list \<Rightarrow> int \<Rightarrow> int \<Rightarrow> 'a list" where
  "py_slice xs lo hi =
     (let a = slice_bound (length xs) lo; b = slice_bound (length xs) hi
      in take (b - a) (drop a xs))"

section \<open>The LLM client (tools/llm\_api.py)\<close>

text \<open>
  The network and the random number generator are parameters: \<open>post n payload\<close>
  is what the \<open>n\<close>-th call of \<open>requests.post\<close> of the process does for the
  payload \<open>(role, user_prompt, max_tokens)\<close> (it raises, or returns a response),
  and \<open>uniform n\<close> is what the \<open>n\<close>-th call of \<open>random.uniform(0, 1)\<close> returns.
  The state is the module's cache, with two counters that only record what
  happened: the number of requests sent and the arguments of \<open>time.sleep\<close>, in
  order. Printing is left out.
\<close>

record http_response =
  status_code :: int
  body_text :: string
  body_json :: "py_exc + json"

datatype http_outcome = Raised py_exc | Responded http_response

type_synonym cache_key = "string \<times> string \<times> string \<times> int"

record client_state =
  llm_cache :: "cache_key \<rightharpoonup> json"
  requests_sent :: nat
  slept :: "rat list"

datatype loop_step = Return json client_state | Continue client_state

definition daily_limit_msg :: string where
  "daily_limit_msg =
     cross_mark @ '' **Daily API Limit Reached** '' @ cross_mark @ ''\<newline>'' @
     ''\<newline>'' @
     ''You are using the shared free-tier API key, which has a dail'' @
     ''y usage limit.\<newline>'' @
     ''\<newline>'' @
     ''**To fix this, please:**\<newline>'' @
     ''1. Get your own free API key from [openrouter.ai](https://op'' @
     ''enrouter.ai/keys)\<newline>'' @
     ''2. Add it to the '' @ [CHR 0x60] @ ''.env'' @ [CHR 0x60] @
     '' file in your project as '' @ [CHR 0x60] @
     ''OPENROUTER_API_KEY=your_key_here'' @ [CHR 0x60]"

text \<open>Lines 57 to 59: the content of the first choice, or \<open>None\<close> when there is no choice.\<close>

definition choices_content :: "json \<Rightarrow> py_exc + json option" where
  "choices_content data =
     try_bind (py_in ''choices'' data) (\<lambda>has_choices.
       if has_choices then
         try_bind (py_getitem data ''choices'') (\<lambda>choices.
           if py_truthy choices then
             try_bind (py_getitem0 choices) (\<lambda>choice.
             try_bind (py_getitem choice ''message'') (\<lambda>message.
             try_bind (py_getitem message ''content'') (\<lambda>content.
               Inr (Some content))))
           else Inr None)
       else Inr None)"

text \<open>Lines 56 to 72: the result of a response with status 200, which is cached and returned.\<close>

definition ok_result :: "pylib \<Rightarrow> http_response \<Rightarrow> json" where
  "ok_result lib response =
     (case try_bind (body_json response) (\<lambda>data.
             try_bind (choices_content data) (\<lambda>content. Inr (data, content))) of
        Inr (data, Some result) \<Rightarrow> result
      | Inr (data, None) \<Rightarrow>
          JString (cross_mark @ '' Unexpected response structure: '' @ str_of lib data)
      | Inl e \<Rightarrow>
          JString (cross_mark @ '' Failed to parse JSON: '' @ exc_str e @ '' | Raw: ''
                   @ body_text response))"

text \<open>Lines 80 to 84: whether the body of a 429 response names a rate limit.\<close>

definition names_rate_limit :: "http_response \<Rightarrow> py_exc + bool" where
  "names_rate_limit response =
     try_bind (body_json response) (\<lambda>error_data.
     try_bind (py_get error_data ''error'' (JObject [])) (\<lambda>err.
     try_bind (py_get err ''message'' (JString [])) (\<lambda>error_message.
     try_bind (py_lower_of error_message) (\<lambda>lowered.
       Inr (contains lowered ''rate limit'')))))"

definition provider_error :: "string \<Rightarrow> http_response \<Rightarrow> json" where
  "provider_error provider response =
     JString (cross_mark @ '' '' @ capitalize provider @ '' error: ''
              @ str_int (status_code response) @ '' - '' @ body_text response)"

text \<open>\<open>time.sleep((2 ** attempt) + random.uniform(0, 1))\<close>.\<close>

definition backoff :: "(nat \<Rightarrow> rat) \<Rightarrow> nat \<Rightarrow> client_state \<Rightarrow> client_state" where
  "backoff uniform attempt st =
     st\<lparr>slept := slept st @ [2 ^ attempt + uniform (length (slept st))]\<rparr>"

text \<open>One iteration of the loop of \<open>call_llm_api\<close> (lines 53 to 114).\<close>

definition attempt_step ::
  "pylib \<Rightarrow> (nat \<Rightarrow> string \<times> string \<times> int \<Rightarrow> http_outcome) \<Rightarrow> (nat \<Rightarrow> rat)
     \<Rightarrow> string \<Rightarrow> string \<Rightarrow> string \<Rightarrow> int \<Rightarrow> int \<Rightarrow> nat \<Rightarrow> client_state \<Rightarrow> loop_step" where
  "attempt_step lib post uniform role user_prompt provider max_tokens max_retries attempt st =
     (let cache_key = (role, user_prompt, provider, max_tokens);
          outcome = post (requests_sent st) (role, user_prompt, max_tokens);
          st1 = st\<lparr>requests_sent := Suc (requests_sent st)\<rparr>;
          on_exception = (\<lambda>e.
            if int attempt < max_retries - 1 then Continue (backoff uniform attempt st1)
            else Return (JString (cross_mark @ '' Request failed after '' @ str_int max_retries
                                  @ '' attempts: '' @ exc_str e)) st1)
      in case outcome of
           Raised e \<Rightarrow> on_exception e
         | Responded response \<Rightarrow>
             if status_code response = 200 then
               (let result = ok_result lib response
                in Return result (st1\<lparr>llm_cache := (llm_cache st1)(cache_key \<mapsto> result)\<rparr>))
             else if status_code response = 429 then
               (let retry = (if int attempt < max_retries - 1
                             then Continue (backoff uniform attempt st1)
                             else Return (provider_error provider response) st1)
                in case names_rate_limit response of
                     Inr True \<Rightarrow> Return (JString daily_limit_msg) st1
                   | Inr False \<Rightarrow> retry
                   | Inl e \<Rightarrow>
                       if exc_cls e = JSONDecodeError \<or> exc_cls e = AttributeError then retry
                       else on_exception e)
             else Return (provider_error provider response) st1)"

text \<open>\<open>for attempt in range(max_retries)\<close>, from the iteration \<open>attempt\<close> on.\<close>

function retry_loop ::
  "pylib \<Rightarrow> (nat \<Rightarrow> string \<times> string \<times> int \<Rightarrow> http_outcome) \<Rightarrow> (nat \<Rightarrow> rat)
     \<Rightarrow> string \<Rightarrow> string \<Rightarrow> string \<Rightarrow> int \<Rightarrow> int \<Rightarrow> nat \<Rightarrow> client_state
     \<Rightarrow> json \<times> client_state" where
  "retry_loop lib post uniform role user_prompt provider max_tokens max_retries attempt st =
     (if int attempt < max_retries then
        (case attempt_step lib post uniform role user_prompt provider max_tokens max_retries
                attempt st of
           Return result st' \<Rightarrow> (result, st')
         | Continue st' \<Rightarrow>
             retry_loop lib post uniform role user_prompt provider max_tokens max_retries
               (Suc attempt) st')
      else
        (JString (cross_mark @ '' Max retries ('' @ str_int max_retries @ '') exceeded''), st))"
  by pat_completeness auto
termination
  by (relation "measure (\<lambda>(lib, post, uniform, role, user_prompt, provider, max_tokens,
                            max_retries, attempt, st). nat (max_retries - int attempt))")
     auto

definition call_llm_api ::
  "pylib \<Rightarrow> (nat \<Rightarrow> string \<times> string \<times> int \<Rightarrow> http_outcome) \<Rightarrow> (nat \<Rightarrow> rat)
     \<Rightarrow> string \<Rightarrow> string \<Rightarrow> string \<Rightarrow> int \<Rightarrow> int \<Rightarrow> client_state
     \<Rightarrow> json \<times> client_state" where
  "call_llm_api lib post uniform role user_prompt provider max_tokens max_retries st =
     (let cache_key = (role, user_prompt, provider, max_tokens)
      in case llm_cache st cache_key of
           Some cached \<Rightarrow> (cached, st)
         | None \<Rightarrow>
             if provider = ''openrouter'' then
               retry_loop lib post uniform role user_prompt provider max_tokens max_retries 0 st
             else (JString (cross_mark @ '' Unsupported provider: '' @ provider), st))"

text \<open>
  \<open>call_llm_api_json\<close>, from line 134 on: what it makes of the text
  \<open>call_llm_api\<close> returned.
\<close>

definition error_record :: "string \<Rightarrow> string \<Rightarrow> (string \<times> json) list \<Rightarrow> json" where
  "error_record err raw extra =
     JObject ([(''error'', JString err), (''raw_response'', JString raw)] @ extra)"

text \<open>Lines 165 to 192: parsing the extracted text, every failure made an error record.\<close>

definition parse_or_error :: "pylib \<Rightarrow> string \<Rightarrow> string \<Rightarrow> json" where
  "parse_or_error lib response_text json_str =
     (case json_loads lib json_str of
        Inr parsed_json \<Rightarrow>
          if isinstance_dict parsed_json \<or> isinstance_list parsed_json then parsed_json
          else error_record ''Invalid JSON type'' (str_of lib parsed_json)
                 [(''parsing_error'',
                   JString ''LLM did not return a JSON object or array as requested.'')]
      | Inl e \<Rightarrow>
          if exc_cls e = JSONDecodeError then
            error_record ''JSON parsing failed'' response_text
              [(''parsing_error'', JString (exc_str e))]
          else
            error_record ''Unexpected parsing error'' response_text
              [(''error_details'', JString (exc_str e))])"

text \<open>Lines 145 to 163: the text handed to the parser, cut from the stripped response.\<close>

definition closing :: "char \<Rightarrow> char" where
  "closing start_char = (if start_char = CHR ''{'' then CHR ''}'' else CHR '']'')"

definition extract_json_text :: "string \<Rightarrow> string" where
  "extract_json_text response_text =
     (let first_brace = py_find response_text CHR ''{'';
          first_bracket = py_find response_text CHR ''['';
          json_start =
            (if first_brace \<noteq> -1 \<and> (first_bracket = -1 \<or> first_brace < first_bracket)
             then first_brace
             else if first_bracket \<noteq> -1 then first_bracket
             else -1)
      in if json_start \<noteq> -1 then
           let start_char = response_text ! nat json_start;
               end_char = closing start_char;
               json_end = py_rfind response_text end_char + 1
           in py_slice response_text json_start json_end
         else response_text)"

text \<open>Lines 134 to 143 and the call of the two parts above.\<close>

definition json_from_text :: "pylib \<Rightarrow> string \<Rightarrow> json" where
  "json_from_text lib response_text0 =
     (if startswith response_text0 cross_mark \<or> startswith response_text0 warning_sign then
        error_record ''LLM API call failed'' response_text0 []
      else
        let response_text = py_strip response_text0
        in parse_or_error lib response_text (extract_json_text response_text))"

definition json_only_suffix :: string where
  "json_only_suffix =
     ''\<newline>'' @ ''\<newline>'' @
     ''IMPORTANT: Respond with valid JSON only. Do not include any '' @
     ''text before or after the JSON object or array.''"

definition call_llm_api_json ::
  "pylib \<Rightarrow> (nat \<Rightarrow> string \<times> string \<times> int \<Rightarrow> http_outcome) \<Rightarrow> (nat \<Rightarrow> rat)
     \<Rightarrow> string \<Rightarrow> string \<Rightarrow> string \<Rightarrow> int \<Rightarrow> int \<Rightarrow> client_state
     \<Rightarrow> (py_exc + json) \<times> client_state" where
  "call_llm_api_json lib post uniform role user_prompt provider max_tokens max_retries st =
     (let enhanced_prompt = user_prompt @ json_only_suffix;
          (response, st') =
             call_llm_api lib post uniform role enhanced_prompt provider max_tokens max_retries st
      in case response of
           JString response_text \<Rightarrow> (Inr (json_from_text lib response_text), st')
         | other \<Rightarrow>
             (Inl (PyExc AttributeError
                     (quoted (type_name other) @ '' object has no attribute ''
                      @ quoted ''startswith'')), st'))"

text \<open>
  The invariant of the store: for every data type, the index in memory and the
  corpus in memory are both absent or hold, position by position, the
  embedding of each corpus text; a loaded type is present; and the same holds
  of the two files of the type on disk.
\<close>

definition aligned :: "(string \<Rightarrow> 'v) \<Rightarrow> 'v list option \<Rightarrow> (string \<times> 'm) list option \<Rightarrow> bool" where
  "aligned encode ix c =
     (case ix of
        None \<Rightarrow> c = None
      | Some vs \<Rightarrow> (case c of None \<Rightarrow> False | Some items \<Rightarrow> vs = map (\<lambda>(text, meta). encode text) items))"

definition handler_inv ::
  "(string \<Rightarrow> 'v) \<Rightarrow> ('v, 'm) faiss_handler \<Rightarrow> ('v, 'm) disk \<Rightarrow> bool" where
  "handler_inv encode h d =
     (\<forall>t. aligned encode (indices h t) (corpora h t)
        \<and> (if t \<in> loaded_types h then indices h t \<noteq> None else True)
        \<and> aligned encode (index_files d (get_index_file h t)) (corpus_files d (get_corpus_file h t)))"

text \<open>A disk on which an earlier process stored one course, in the directory \<open>.\<close>\<close>

definition persisted_course_disk :: "(nat, string) disk" where
  "persisted_course_disk =
     \<lparr>index_files = [''./faiss_index_course.bin'' \<mapsto> [11]],
      corpus_files = [''./faiss_corpus_course.pkl'' \<mapsto> [(''Intro to ML'', ''Coursera'')]]\<rparr>"

text \<open>
  The item \<open>corpus[i]\<close> gives for a label \<open>i\<close> that does not raise, and whether
  an item passes the optional filter.
\<close>

definition neighbour_item :: "'a list \<Rightarrow> int \<Rightarrow> 'a" where
  "neighbour_item corpus i = (if i < 0 then corpus ! nat (int (length corpus) + i) else corpus ! nat i)"

definition kept :: "('m \<Rightarrow> bool) option \<Rightarrow> 'm \<Rightarrow> bool" where
  "kept filter_fn meta = (case filter_fn of None \<Rightarrow> True | Some f \<Rightarrow> f meta)"

text \<open>
  An index of one vector asked for three neighbours: the one it has, and two
  padding slots with label -1 and the largest float32 as distance.
\<close>

definition padded_search :: "nat list \<Rightarrow> nat \<Rightarrow> int \<Rightarrow> (int \<times> rat) list" where
  "padded_search ix q k = [(0, 1 / 4), (- 1, 340282346638528859811704183484516925440),
                           (- 1, 340282346638528859811704183484516925440)]"

subsection \<open>What the loop retries\<close>

text \<open>
  The outcomes of a request after which the loop goes on while attempts are
  left: an exception of \<open>requests.post\<close>, and a 429 response whose body does
  not name a rate limit. \<open>after_retries uniform k st\<close> is the state after \<open>k\<close>
  such attempts: \<open>k\<close> requests more, and the \<open>k\<close> sleeps \<open>2 ** j + uniform\<close>.
\<close>

definition retryable :: "http_outcome \<Rightarrow> bool" where
  "retryable outcome =
     (case outcome of
        Raised e \<Rightarrow> True
      | Responded response \<Rightarrow>
          status_code response = 429 \<and> names_rate_limit response \<noteq> Inr True)"

definition after_retries :: "(nat \<Rightarrow> rat) \<Rightarrow> nat \<Rightarrow> client_state \<Rightarrow> client_state" where
  "after_retries uniform k st =
     st\<lparr>requests_sent := requests_sent st + k,
        slept := slept st @ map (\<lambda>j. 2 ^ j + uniform (length (slept st) + j)) [0..<k]\<rparr>"

text \<open>
  A 429 response the client takes for a passing rate limit: its body does not
  parse, or is not of the expected shape, or its message lacks the marker.
\<close>

definition soft_rate_limit :: "http_response \<Rightarrow> bool" where
  "soft_rate_limit response =
     (status_code response = 429 \<and>
      (case names_rate_limit response of
         Inr hard \<Rightarrow> \<not> hard
       | Inl e \<Rightarrow> exc_cls e = JSONDecodeError \<or> exc_cls e = AttributeError))"

text \<open>
  The state of a new process, and the state after a sequence of calls of
  \<open>call_llm_api\<close>, each given by its arguments
  \<open>(role, user_prompt, provider, max_tokens, max_retries)\<close>.
\<close>

definition fresh_client :: client_state where
  "fresh_client = \<lparr>llm_cache = Map.empty, requests_sent = 0, slept = []\<rparr>"

fun run_calls ::
  "pylib \<Rightarrow> (nat \<Rightarrow> string \<times> string \<times> int \<Rightarrow> http_outcome) \<Rightarrow> (nat \<Rightarrow> rat)
     \<Rightarrow> (string \<times> string \<times> string \<times> int \<times> int) list \<Rightarrow> client_state \<Rightarrow> client_state" where
  "run_calls lib post uniform [] st = st"
| "run_calls lib post uniform ((role, user_prompt, provider, max_tokens, max_retries) # calls) st =
     run_calls lib post uniform calls
       (snd (call_llm_api lib post uniform role user_prompt provider max_tokens max_retries st))"

subsection \<open>Sample environments\<close>

text \<open>
  Instances of the parameters, for the closed examples below. \<open>sample_lib\<close>
  gives \<open>json.loads\<close> and \<open>str\<close> as Python does on the texts and values the
  examples pass them (a few JSON texts and texts that are not JSON; the empty
  dictionary and the empty list); the servers answer every request alike.
\<close>

definition sample_lib :: pylib where
  "sample_lib =
     \<lparr>json_loads = (\<lambda>s.
        if s = ''{\"relevance_score\":8}'' then Inr (JObject [(''relevance_score'', JInt 8)])
        else if s = ''{\"relevance_score\":3}'' then Inr (JObject [(''relevance_score'', JInt 3)])
        else if s = ''[{\"relevance_score\":7}]''
          then Inr (JArray [JObject [(''relevance_score'', JInt 7)]])
        else if s = ''{}'' then Inr (JObject [])
        else Inl (PyExc JSONDecodeError ''Expecting value: line 1 column 1 (char 0)'')),
      py_str = (\<lambda>v. case v of JObject [] \<Rightarrow> ''{}'' | JArray [] \<Rightarrow> ''[]''
                       | other \<Rightarrow> ''...'')\<rparr>"

definition refusing_post :: "nat \<Rightarrow> string \<times> string \<times> int \<Rightarrow> http_outcome" where
  "refusing_post n payload = Raised (PyExc RequestException ''connection refused'')"

definition server_error_post :: "nat \<Rightarrow> string \<times> string \<times> int \<Rightarrow> http_outcome" where
  "server_error_post n payload =
     Responded \<lparr>status_code = 500, body_text = ''Internal Server Error'',
                body_json = Inl (PyExc JSONDecodeError ''Expecting value: line 1 column 1 (char 0)'')\<rparr>"

definition daily_quota_post :: "nat \<Rightarrow> string \<times> string \<times> int \<Rightarrow> http_outcome" where
  "daily_quota_post n payload =
     Responded \<lparr>status_code = 429, body_text = ''quota'',
                body_json = Inr (JObject [(''error'',
                   JObject [(''message'', JString ''Rate limit exceeded: free-models-per-day'')])])\<rparr>"

definition busy_post :: "nat \<Rightarrow> string \<times> string \<times> int \<Rightarrow> http_outcome" where
  "busy_post n payload =
     Responded \<lparr>status_code = 429, body_text = ''Too Many Requests'',
                body_json = Inl (PyExc JSONDecodeError ''Expecting value: line 1 column 1 (char 0)'')\<rparr>"

definition html_post :: "nat \<Rightarrow> string \<times> string \<times> int \<Rightarrow> http_outcome" where
  "html_post n payload =
     Responded \<lparr>status_code = 200, body_text = ''<html>Bad Gateway</html>'',
                body_json = Inl (PyExc JSONDecodeError ''Expecting value: line 1 column 1 (char 0)'')\<rparr>"

text \<open>
  The extraction in the words of the specification: the candidate starts at
  the first \<open>{\<close> or \<open>[\<close> of the trimmed text and ends at the last occurrence of
  the matching closing character (no text when none follows); without a
  brace or bracket the candidate is the whole trimmed text.
\<close>

definition candidate_as_claimed :: "string \<Rightarrow> string" where
  "candidate_as_claimed trimmed =
     (case dropWhile (\<lambda>c. c \<noteq> CHR ''{'' \<and> c \<noteq> CHR ''['') trimmed of
        [] \<Rightarrow> trimmed
      | c # rest \<Rightarrow>
          if closing c \<in> set rest
          then c # rev (dropWhile (\<lambda>x. x \<noteq> closing c) (rev rest))
          else [])"

definition json_from_text_as_claimed :: "pylib \<Rightarrow> string \<Rightarrow> json" where
  "json_from_text_as_claimed lib raw =
     parse_or_error lib (py_strip raw) (candidate_as_claimed (py_strip raw))"

text \<open>An error record: a dictionary whose first two keys are \<open>error\<close> and \<open>raw_response\<close>.\<close>

fun is_error_record :: "json \<Rightarrow> bool" where
  "is_error_record (JObject ((k1, JString err) # (k2, JString raw) # extra)) =
     (k1 = ''error'' \<and> k2 = ''raw_response'')"
| "is_error_record v = False"

definition fenced_reply :: string where
  "fenced_reply =
     ''Sure! '' @ [CHR 0x60, CHR 0x60, CHR 0x60] @ ''json\<newline>'' @
     ''{\"relevance_score\":8}\<newline>'' @ [CHR 0x60, CHR 0x60, CHR 0x60]"

section \<open>Course analysis and ranking (tools/course\_fetcher.py)\<close>

text \<open>\<open>sep.join(items)\<close>: every item must be a string.\<close>

fun join_from :: "nat \<Rightarrow> string \<Rightarrow> json list \<Rightarrow> py_exc + string" where
  "join_from k sep [] = Inr []"
| "join_from k sep (JString s # rest) =
     (case rest of
        [] \<Rightarrow> Inr s
      | y # ys \<Rightarrow> try_bind (join_from (Suc k) sep rest) (\<lambda>joined. Inr (s @ sep @ joined)))"
| "join_from k sep (v # rest) =
     Inl (PyExc TypeError (''sequence item '' @ str_nat k @ '': expected str instance, ''
                           @ type_name v @ '' found''))"

definition py_join :: "string \<Rightarrow> json list \<Rightarrow> py_exc + string" where
  "py_join sep items = join_from 0 sep items"











text \<open>\<open>{**d, key: v}\<close> and \<open>d[key] = v\<close>: the value of a key that is present is replaced in place.\<close>

fun dict_set :: "(string \<times> json) list \<Rightarrow> string \<Rightarrow> json \<Rightarrow> (string \<times> json) list" where
  "dict_set [] key v = [(key, v)]"
| "dict_set ((k, x) # kvs) key v =
     (if k = key then (k, v) # kvs else (k, x) # dict_set kvs key v)"


definition relevance_score :: "json \<Rightarrow> json" where
  "relevance_score course =
     (case py_getitem course ''relevance_score'' of Inr v \<Rightarrow> v | Inl e \<Rightarrow> JNull)"









text \<open>
  The score \<open>rank_and_filter_courses\<close> attaches to a course whose analysis is
  the dictionary \<open>analysis\<close>: \<open>analysis.get("relevance_score", 5)\<close>.
\<close>

definition attached_score :: "(string \<times> json) list \<Rightarrow> json" where
  "attached_score analysis =
     (case map_of analysis ''relevance_score'' of Some s \<Rightarrow> s | None \<Rightarrow> JInt 5)"

definition with_analysis :: "(string \<times> json) list \<Rightarrow> (string \<times> json) list \<Rightarrow> json" where
  "with_analysis items analysis =
     JObject (dict_set (dict_set items ''analysis'' (JObject analysis))
                ''relevance_score'' (attached_score analysis))"



section \<open>Resume enhancement and its fallback (tools/pipeline.py, crew/tools.py)\<close>

subsection \<open>String helpers\<close>

text \<open>
  \<open>s.replace(old, new)\<close>: the occurrences of \<open>old\<close> are replaced from the left,
  without overlap; for an empty \<open>old\<close>, \<open>new\<close> is put before every character and
  at the end.
\<close>

function replace_from :: "string \<Rightarrow> string \<Rightarrow> string \<Rightarrow> string" where
  "replace_from s old new =
     (if s = [] \<or> old = [] then s
      else if startswith s old then new @ replace_from (drop (length old) s) old new
      else hd s # replace_from (tl s) old new)"
  by pat_completeness auto
termination
  by (relation "measure (\<lambda>(s, old, new). length s)") auto

definition py_replace :: "string \<Rightarrow> string \<Rightarrow> string \<Rightarrow> string" where
  "py_replace s old new =
     (if old = [] then new @ concat (map (\<lambda>c. c # new) s) else replace_from s old new)"

text \<open>\<open>re.sub(r'\n{3,}', '\n\n', s)\<close>: a run of three or more newlines becomes two.\<close>

function collapse_newlines :: "string \<Rightarrow> string" where
  "collapse_newlines s =
     (case s of
        [] \<Rightarrow> []
      | c # cs \<Rightarrow>
          if c = CHR 0x0A then
            (let run = takeWhile (\<lambda>x. x = CHR 0x0A) s
             in (if 3 \<le> length run then [CHR 0x0A, CHR 0x0A] else run)
                @ collapse_newlines (dropWhile (\<lambda>x. x = CHR 0x0A) s))
          else c # collapse_newlines cs)"
  by pat_completeness auto
termination
  by (relation "measure length") (auto simp: length_dropWhile_le less_Suc_eq_le)

text \<open>\<open>re.sub(r' +', ' ', s)\<close>: a run of spaces becomes one space.\<close>

function squeeze_spaces :: "string \<Rightarrow> string" where
  "squeeze_spaces s =
     (case s of
        [] \<Rightarrow> []
      | c # cs \<Rightarrow>
          if c = CHR '' '' then c # squeeze_spaces (dropWhile (\<lambda>x. x = CHR '' '') cs)
          else c # squeeze_spaces cs)"
  by pat_completeness auto
termination
  by (relation "measure length") (auto simp: length_dropWhile_le less_Suc_eq_le)

text \<open>The characters of a string, each the bytes of its encoding.\<close>

function utf8_chars :: "string \<Rightarrow> string list" where
  "utf8_chars s =
     (if s = [] then [] else first_char s # utf8_chars (drop (length (first_char s)) s))"
  by pat_completeness auto
termination
  by (relation "measure length") (auto simp: first_char_def Let_def split: list.splits)

text \<open>\<open>sep.join(v)\<close> for any value: a string is joined by its characters, a dictionary by its keys.\<close>

fun py_join_any :: "string \<Rightarrow> json \<Rightarrow> py_exc + string" where
  "py_join_any sep (JArray xs) = py_join sep xs"
| "py_join_any sep (JString s) = py_join sep (map JString (utf8_chars s))"
| "py_join_any sep (JObject kvs) = py_join sep (map (\<lambda>(k, v). JString k) kvs)"
| "py_join_any sep v = Inl (PyExc TypeError ''can only join an iterable'')"

text \<open>\<open>v[key] = x\<close> for a string \<open>key\<close>.\<close>

fun py_setitem :: "json \<Rightarrow> string \<Rightarrow> json \<Rightarrow> py_exc + json" where
  "py_setitem (JObject kvs) key x = Inr (JObject (dict_set kvs key x))"
| "py_setitem (JArray xs) key x =
     Inl (PyExc TypeError ''list indices must be integers or slices, not str'')"
| "py_setitem v key x =
     Inl (PyExc TypeError (quoted (type_name v) @ '' object does not support item assignment''))"

subsection \<open>Cleaning and extraction (pipeline.py, lines 14 to 52)\<close>

definition clean_text :: "string \<Rightarrow> string" where
  "clean_text text0 =
     (let text1 = py_replace text0 [CHR 0x5C, CHR ''n''] [CHR 0x0A];
          text2 = py_replace text1 [CHR 0x5C, CHR ''t''] [CHR 0x09];
          text3 = py_replace text2 [CHR 0x5C, CHR ''r''] [CHR 0x0D];
          text4 = py_replace text3 [CHR 0x09, CHR ''+''] ''- '';
          text5 = py_replace text4 [CHR 0x09, CHR ''-''] ''- '';
          text6 = py_replace text5 [CHR 0x09, CHR ''*''] ''- '';
          text7 = collapse_newlines text6;
          text8 = py_replace text7 [CHR 0x5C, CHR ''n''] '' '';
          text9 = py_replace text8 [CHR 0x5C, CHR ''t''] '' '';
          text10 = squeeze_spaces text9
      in py_strip text10)"

definition clean_llm_output :: "json \<Rightarrow> py_exc + json" where
  "clean_llm_output v =
     (if \<not> py_truthy v then Inr v
      else case v of
             JString s \<Rightarrow> Inr (JString (clean_text s))
           | other \<Rightarrow>
               Inl (PyExc AttributeError
                      (quoted (type_name other) @ '' object has no attribute ''
                       @ quoted ''replace'')))"

text \<open>
  The search of the pattern of line 44, a fenced block holding braces, with
  IGNORECASE: three backquotes, optionally \<open>json\<close> in any letter case (the long
  s, U+017F, counts as an \<open>s\<close>), whitespace, then from a \<open>{\<close> the shortest text
  up to a \<open>}\<close> that only whitespace separates from three backquotes. The
  result is group 1 of the leftmost match.
\<close>

definition fence :: string where
  "fence = [CHR 0x60, CHR 0x60, CHR 0x60]"

definition skip_json_word :: "string \<Rightarrow> string" where
  "skip_json_word s =
     (case s of
        j # rest1 \<Rightarrow>
          if j = CHR ''j'' \<or> j = CHR ''J'' then
            (let rest2 = (if startswith rest1 ''s'' \<or> startswith rest1 ''S'' then Some (drop 1 rest1)
                          else if startswith rest1 [CHR 0xC5, CHR 0xBF] then Some (drop 2 rest1)
                          else None)
             in case rest2 of
                  Some (o1 # n1 # rest3) \<Rightarrow>
                    if (o1 = CHR ''o'' \<or> o1 = CHR ''O'') \<and> (n1 = CHR ''n'' \<or> n1 = CHR ''N'')
                    then rest3 else s
                | other \<Rightarrow> s)
          else s
      | [] \<Rightarrow> s)"

fun close_at :: "string \<Rightarrow> string \<Rightarrow> string option" where
  "close_at [] seen = None"
| "close_at (c # cs) seen =
     (if c = CHR ''}'' \<and> startswith (strip_left unicode_spaces cs) fence
      then Some (rev (c # seen))
      else close_at cs (c # seen))"

definition match_fence_at :: "string \<Rightarrow> string option" where
  "match_fence_at s =
     (if startswith s fence then
        (case strip_left unicode_spaces (skip_json_word (drop 3 s)) of
           c # body \<Rightarrow> if c = CHR ''{'' then close_at body [c] else None
         | [] \<Rightarrow> None)
      else None)"

fun search_fenced_json :: "string \<Rightarrow> string option" where
  "search_fenced_json [] = match_fence_at []"
| "search_fenced_json (c # cs) =
     (case match_fence_at (c # cs) of
        Some group1 \<Rightarrow> Some group1
      | None \<Rightarrow> search_fenced_json cs)"

definition extract_json_from_llm_output :: "json \<Rightarrow> py_exc + string" where
  "extract_json_from_llm_output v =
     (case v of
        JString text \<Rightarrow>
          (case search_fenced_json text of
             Some group1 \<Rightarrow> Inr group1
           | None \<Rightarrow>
               let start = py_find text CHR ''{'';
                   end_pos = py_rfind text CHR ''}''
               in if start \<noteq> -1 \<and> end_pos \<noteq> -1 then Inr (py_slice text start (end_pos + 1))
                  else Inr (py_strip text))
      | other \<Rightarrow>
          Inl (PyExc TypeError
                 (''expected string or bytes-like object, got '' @ quoted (type_name other))))"

subsection \<open>\<open>extract_resume_core_info\<close> and \<open>enhance_resume\<close>\<close>

definition core_info_prompt :: string where
  "core_info_prompt =
     ''You are an expert resume parser and branding coach. Given th'' @
     ''e following resume, extract:\<newline>'' @
     ''1. Key technical skills (as a Python list of strings, e.g., '' @
     ''['' @
     [CHR 0x22] @
     ''Python'' @
     [CHR 0x22] @
     '', '' @
     [CHR 0x22] @
     ''Machine Learning'' @
     [CHR 0x22] @
     '']). If no skills are found, return an empty list.\<newline>'' @
     ''2. The most likely job title (as a short string, e.g., '' @
     [CHR 0x22] @
     ''Data Scientist'' @
     [CHR 0x22] @
     ''). If not found, return '' @
     [CHR 0x22] @
     ''Unknown'' @
     [CHR 0x22] @
     ''.\<newline>'' @
     ''3. A professional headline (max 12 words).\<newline>'' @
     ''4. A 2'' @
     [CHR 0xE2, CHR 0x80, CHR 0x93] @
     ''3 line professional summary (max 60 words).\<newline>'' @
     ''Respond ONLY in valid JSON as:\<newline>'' @
     ''{\<newline>'' @
     ''  '' @
     [CHR 0x22] @
     ''skills'' @
     [CHR 0x22] @
     '': [...],\<newline>'' @
     ''  '' @
     [CHR 0x22] @
     ''job_title'' @
     [CHR 0x22] @
     '': '' @
     [CHR 0x22] @
     ''...'' @
     [CHR 0x22] @
     '',\<newline>'' @
     ''  '' @
     [CHR 0x22] @
     ''headline'' @
     [CHR 0x22] @
     '': '' @
     [CHR 0x22] @
     ''...'' @
     [CHR 0x22] @
     '',\<newline>'' @
     ''  '' @
     [CHR 0x22] @
     ''summary'' @
     [CHR 0x22] @
     '': '' @
     [CHR 0x22] @
     ''...'' @
     [CHR 0x22] @
     ''\<newline>'' @
     ''}\<newline>'' @
     ''Do not include any text before or after the JSON.\<newline>'' @
     ''Resume:\<newline>''"

definition core_info_role :: string where
  "core_info_role =
     ''You are an expert resume parser and branding coach. Extract all requested '' @
     ''fields and return only valid JSON.''"

definition default_core_info :: json where
  "default_core_info =
     JObject [(''skills'', JArray []), (''job_title'', JString []),
              (''headline'', JString []), (''summary'', JString [])]"

text \<open>\<open>for key in keys: if key not in data: data[key] = ""\<close>.\<close>

fun fill_keys :: "json \<Rightarrow> string list \<Rightarrow> py_exc + json" where
  "fill_keys data [] = Inr data"
| "fill_keys data (key # keys) =
     try_bind (py_in key data) (\<lambda>present.
       if present then fill_keys data keys
       else try_bind (py_setitem data key (JString [])) (\<lambda>data'. fill_keys data' keys))"

definition extract_resume_core_info ::
  "pylib \<Rightarrow> (nat \<Rightarrow> string \<times> string \<times> int \<Rightarrow> http_outcome) \<Rightarrow> (nat \<Rightarrow> rat)
     \<Rightarrow> string \<Rightarrow> client_state \<Rightarrow> json \<times> client_state" where
  "extract_resume_core_info lib post uniform resume_text st =
     (let prompt = core_info_prompt @ resume_text;
          (response, st1) =
             call_llm_api lib post uniform core_info_role prompt ''openrouter'' 500 3 st
      in case try_bind (extract_json_from_llm_output response) (\<lambda>cleaned_response.
              try_bind (json_loads lib cleaned_response) (\<lambda>data.
                fill_keys data [''skills'', ''job_title'', ''headline'', ''summary''])) of
           Inr data \<Rightarrow> (data, st1)
         | Inl e \<Rightarrow> (default_core_info, st1))"

definition enhancement_prompt ::
  "pylib \<Rightarrow> json \<Rightarrow> json \<Rightarrow> json \<Rightarrow> string \<Rightarrow> string \<Rightarrow> string" where
  "enhancement_prompt lib target_job_role headline summary skills resume_text =
     ''Act as a professional resume editor. Rewrite and enhance the'' @
     '' following resume to target the job role of '' @
     [CHR 0x27] @
     str_of lib target_job_role @
     [CHR 0x27] @
     ''.\<newline>'' @
     ''\<newline>'' @
     ''**Instructions:**\<newline>'' @
     ''1. **Integrate Headline & Summary:** Start with this profess'' @
     ''ional headline: '' @
     str_of lib headline @
     '' and summary: '' @
     str_of lib summary @
     ''.\<newline>'' @
     ''2. **Inject Skills:** Seamlessly incorporate these key skill'' @
     ''s: '' @
     skills @
     ''.\<newline>'' @
     ''3. **Full Rewrite:** Rewrite the entire resume, not just par'' @
     ''ts of it. Ensure all original sections (Experience, Educatio'' @
     ''n, etc.) are present and improved.\<newline>'' @
     ''4. **Professional Tone:** Use action verbs and quantifiable '' @
     ''achievements.\<newline>'' @
     ''5. **Formatting:** Use clean markdown with clear headers (e.'' @
     ''g., '' @
     [CHR 0x60] @
     ''## Experience'' @
     [CHR 0x60] @
     '') and bullet points ('' @
     [CHR 0x60] @
     ''-'' @
     [CHR 0x60] @
     ''). Do not use any escape characters like '' @
     [CHR 0x5C] @
     ''n.\<newline>'' @
     ''\<newline>'' @
     ''**Original Resume to Enhance:**\<newline>'' @
     resume_text @
     ''\<newline>'' @
     ''\<newline>'' @
     ''**Return the complete, enhanced resume.**''"

definition editor_role :: string where
  "editor_role = ''You are a professional resume editor.''"

definition enhance_resume ::
  "pylib \<Rightarrow> (nat \<Rightarrow> string \<times> string \<times> int \<Rightarrow> http_outcome) \<Rightarrow> (nat \<Rightarrow> rat)
     \<Rightarrow> string \<Rightarrow> json \<Rightarrow> client_state \<Rightarrow> (py_exc + json) \<times> client_state" where
  "enhance_resume lib post uniform resume_text target_job_role0 st =
     (let (core_info, st1) = extract_resume_core_info lib post uniform resume_text st
      in case try_bind (py_get core_info ''headline'' (JString [])) (\<lambda>headline.
              try_bind (py_get core_info ''summary'' (JString [])) (\<lambda>summary.
              try_bind (py_get core_info ''skills'' JNull) (\<lambda>skills.
              try_bind (py_get core_info ''job_title'' target_job_role0) (\<lambda>target_job_role.
              try_bind (py_join_any '', '' skills) (\<lambda>joined.
                Inr (enhancement_prompt lib target_job_role headline summary joined
                       resume_text)))))) of
           Inl e \<Rightarrow> (Inl e, st1)
         | Inr prompt \<Rightarrow>
             (let (result, st2) =
                    call_llm_api lib post uniform editor_role prompt ''openrouter'' 1500 3 st1
              in (Inr result, st2)))"

subsection \<open>The wrapper and its fallback (crew/tools.py, lines 20 to 36 and 71 to 80)\<close>

text \<open>
  \<open>call_local_llm_api\<close> belongs to the module \<open>tools.local_llm\<close>, which is not
  among the sources: it is the parameter \<open>local_llm\<close>. The wrapper returns, with
  its result and the client's state, the calls of the local model it made.
\<close>

definition unavailable_msg :: string where
  "unavailable_msg = warning_sign @ '' Service temporarily unavailable. Please try again later.''"

definition handle_llm_fallback ::
  "(string \<Rightarrow> string \<Rightarrow> int \<Rightarrow> py_exc + json) \<Rightarrow> string \<Rightarrow> string \<Rightarrow> int \<Rightarrow> json" where
  "handle_llm_fallback local_llm role prompt max_tokens =
     (case local_llm role prompt max_tokens of
        Inl e \<Rightarrow> JString unavailable_msg
      | Inr (JString local_response) \<Rightarrow>
          if \<not> startswith local_response cross_mark then JString local_response
          else JString (unavailable_msg @ '' (Local fallback failed: '' @ local_response @ '')'')
      | Inr other \<Rightarrow> JString unavailable_msg)"

definition fallback_prompt :: "string \<Rightarrow> string \<Rightarrow> string" where
  "fallback_prompt resume_text target_job_role =
     ''Enhance this resume for the role of '' @ target_job_role @
     ''. Add a professional summary and improve formatting:\<newline>'' @ ''\<newline>'' @ resume_text"

definition clean_enhance_resume ::
  "pylib \<Rightarrow> (nat \<Rightarrow> string \<times> string \<times> int \<Rightarrow> http_outcome) \<Rightarrow> (nat \<Rightarrow> rat)
     \<Rightarrow> (string \<Rightarrow> string \<Rightarrow> int \<Rightarrow> py_exc + json) \<Rightarrow> string \<Rightarrow> string \<Rightarrow> client_state
     \<Rightarrow> json \<times> client_state \<times> (string \<times> string \<times> int) list" where
  "clean_enhance_resume lib post uniform local_llm resume_text target_job_role st =
     (let (outcome, st') =
            enhance_resume lib post uniform resume_text (JString target_job_role) st;
          fall_back =
            (handle_llm_fallback local_llm editor_role
               (fallback_prompt resume_text target_job_role) 1200,
             st',
             [(editor_role, fallback_prompt resume_text target_job_role, 1200)])
      in case try_bind outcome clean_llm_output of
           Inr cleaned \<Rightarrow> (cleaned, st', [])
         | Inl e \<Rightarrow> fall_back)"

text \<open>A local model that answers every prompt.\<close>

definition willing_local_llm :: "string \<Rightarrow> string \<Rightarrow> int \<Rightarrow> py_exc + json" where
  "willing_local_llm role prompt max_tokens = Inr (JString ''Enhanced resume for John Doe'')"

definition refused_msg :: string where
  "refused_msg = cross_mark @ '' Request failed after 3 attempts: connection refused''"


section \<open>Properties of the vector store\<close>

lemma path_join_inj: "path_join a (p @ t @ s) = path_join a (p @ t' @ s) \<Longrightarrow> p \<noteq> [] \<Longrightarrow> hd p \<noteq> CHR ''/'' \<Longrightarrow> t = t'"
  by (auto simp: path_join_def split: if_splits)

lemma get_index_file_inj [simp]: "get_index_file h t = get_index_file h t' \<longleftrightarrow> t = t'"
  unfolding get_index_file_def using path_join_inj[of "base_dir h" "''faiss_index_''" t "''.bin''" t'] by auto

lemma get_corpus_file_inj [simp]: "get_corpus_file h t = get_corpus_file h t' \<longleftrightarrow> t = t'"
  unfolding get_corpus_file_def using path_join_inj[of "base_dir h" "''faiss_corpus_''" t "''.pkl''" t'] by auto

lemma get_file_upd [simp]:
  "get_index_file (h\<lparr>indices := a\<rparr>) = get_index_file h"
  "get_index_file (h\<lparr>corpora := b\<rparr>) = get_index_file h"
  "get_index_file (h\<lparr>loaded_types := c\<rparr>) = get_index_file h"
  "get_corpus_file (h\<lparr>indices := a\<rparr>) = get_corpus_file h"
  "get_corpus_file (h\<lparr>corpora := b\<rparr>) = get_corpus_file h"
  "get_corpus_file (h\<lparr>loaded_types := c\<rparr>) = get_corpus_file h"
  by (auto simp: get_index_file_def get_corpus_file_def fun_eq_iff)

lemma ensure_loaded_inv:
  assumes "handler_inv encode h d"
  shows "handler_inv encode (ensure_loaded h d t) d"
    and "indices (ensure_loaded h d t) t \<noteq> None"
    and "corpora (ensure_loaded h d t) t \<noteq> None"
    and "t \<in> loaded_types (ensure_loaded h d t)"
    and "base_dir (ensure_loaded h d t) = base_dir h"
proof -
  show "base_dir (ensure_loaded h d t) = base_dir h"
    by (simp add: ensure_loaded_def Let_def)
  show "t \<in> loaded_types (ensure_loaded h d t)"
    by (simp add: ensure_loaded_def Let_def)
  have a: "aligned encode (indices h t) (corpora h t)" and b: "t \<in> loaded_types h \<Longrightarrow> indices h t \<noteq> None"
    and c: "aligned encode (index_files d (get_index_file h t)) (corpus_files d (get_corpus_file h t))"
    using assms unfolding handler_inv_def by (auto split: if_splits)
  show "indices (ensure_loaded h d t) t \<noteq> None"
    using b by (auto simp add: ensure_loaded_def Let_def)
  show "corpora (ensure_loaded h d t) t \<noteq> None"
    using a b by (auto simp add: ensure_loaded_def Let_def aligned_def split: option.splits)
  show "handler_inv encode (ensure_loaded h d t) d"
    unfolding handler_inv_def
  proof
    fix u
    have au: "aligned encode (indices h u) (corpora h u)" and bu: "u \<in> loaded_types h \<Longrightarrow> indices h u \<noteq> None"
    and cu: "aligned encode (index_files d (get_index_file h u)) (corpus_files d (get_corpus_file h u))"
    using assms unfolding handler_inv_def by (auto split: if_splits)
    show "aligned encode (indices (ensure_loaded h d t) u) (corpora (ensure_loaded h d t) u) \<and>
         (if u \<in> loaded_types (ensure_loaded h d t) then indices (ensure_loaded h d t) u \<noteq> None
          else True) \<and>
         aligned encode (index_files d (get_index_file (ensure_loaded h d t) u))
          (corpus_files d (get_corpus_file (ensure_loaded h d t) u))"
      using au bu cu c
      by (auto simp add: ensure_loaded_def Let_def aligned_def split: option.splits)
  qed
qed


lemma save_inv:
  assumes "handler_inv encode h d"
  shows "case save h d t of (r, h', d') \<Rightarrow> r = Inr () \<and> handler_inv encode h' d' \<and> h' = ensure_loaded h d t
     \<and> index_files d' (get_index_file h t) = indices h' t \<and> corpus_files d' (get_corpus_file h t) = corpora h' t"
proof -
  let ?h1 = "ensure_loaded h d t"
  note el = ensure_loaded_inv[OF assms, of t]
  obtain ix c where ix: "indices ?h1 t = Some ix" and c: "corpora ?h1 t = Some c"
    using el(2,3) by auto
  have gi: "get_index_file ?h1 = get_index_file h" and gc: "get_corpus_file ?h1 = get_corpus_file h"
    using el(5) by (auto simp: get_index_file_def get_corpus_file_def fun_eq_iff)
  have al: "aligned encode (Some ix) (Some c)"
    using el(1) ix c unfolding handler_inv_def by metis
  have "handler_inv encode ?h1
      (d\<lparr>index_files := (index_files d)(get_index_file h t \<mapsto> ix),
          corpus_files := (corpus_files d)(get_corpus_file h t \<mapsto> c)\<rparr>)"
    using el(1) al unfolding handler_inv_def gi gc by auto
  then show ?thesis
    by (simp add: save_def Let_def ix c gi gc)
qed


lemma aligned_Some_iff:
  "aligned encode (Some vs) c \<longleftrightarrow>
     (\<exists>items. c = Some items \<and> length vs = length items
        \<and> (\<forall>i < length items. vs ! i = encode (fst (items ! i))))"
  by (cases c) (auto simp: aligned_def list_eq_iff_nth_eq case_prod_beta)

lemma handler_inv_lengths:
  assumes "handler_inv encode h d" and "indices h u = Some vs"
  shows "\<exists>items. corpora h u = Some items \<and> length vs = length items
           \<and> (\<forall>i < length items. vs ! i = encode (fst (items ! i)))"
proof -
  have "aligned encode (Some vs) (corpora h u)"
    using assms unfolding handler_inv_def by metis
  then show ?thesis by (simp only: aligned_Some_iff)
qed

lemma handler_inv_upd:
  assumes "handler_inv encode h d" and "aligned encode (Some vs) (Some items)"
  shows "handler_inv encode (h\<lparr>indices := (indices h)(t \<mapsto> vs), corpora := (corpora h)(t \<mapsto> items)\<rparr>) d"
  unfolding handler_inv_def
proof
  fix u
  have "aligned encode (indices h u) (corpora h u)"
    and "u \<in> loaded_types h \<Longrightarrow> indices h u \<noteq> None"
    and "aligned encode (index_files d (get_index_file h u)) (corpus_files d (get_corpus_file h u))"
    using assms(1) unfolding handler_inv_def by (auto split: if_splits)
  then show "aligned encode (indices (h\<lparr>indices := (indices h)(t \<mapsto> vs), corpora := (corpora h)(t \<mapsto> items)\<rparr>) u)
        (corpora (h\<lparr>indices := (indices h)(t \<mapsto> vs), corpora := (corpora h)(t \<mapsto> items)\<rparr>) u) \<and>
       (if u \<in> loaded_types (h\<lparr>indices := (indices h)(t \<mapsto> vs), corpora := (corpora h)(t \<mapsto> items)\<rparr>)
        then indices (h\<lparr>indices := (indices h)(t \<mapsto> vs), corpora := (corpora h)(t \<mapsto> items)\<rparr>) u \<noteq> None
        else True) \<and>
       aligned encode
        (index_files d (get_index_file (h\<lparr>indices := (indices h)(t \<mapsto> vs), corpora := (corpora h)(t \<mapsto> items)\<rparr>) u))
        (corpus_files d (get_corpus_file (h\<lparr>indices := (indices h)(t \<mapsto> vs), corpora := (corpora h)(t \<mapsto> items)\<rparr>) u))"
    using assms(2) by auto
qed

lemma add_inv:
  assumes inv: "handler_inv encode h d"
  shows "case add encode h d tx meta t of (r, h', d') \<Rightarrow>
           handler_inv encode h' d'
           \<and> (if py_strip tx = [] then r = Inr empty_text_msg \<and> h' = ensure_loaded h d t \<and> d' = d
              else r = Inr stored_msg
                \<and> (\<exists>vs items. indices (ensure_loaded h d t) t = Some vs
                      \<and> corpora (ensure_loaded h d t) t = Some items
                      \<and> indices h' t = Some (vs @ [encode tx])
                      \<and> corpora h' t = Some (items @ [(tx, meta)])
                      \<and> index_files d' (get_index_file h t) = Some (vs @ [encode tx])
                      \<and> corpus_files d' (get_corpus_file h t) = Some (items @ [(tx, meta)])))"
proof (cases "py_strip tx = []")
  case True
  then show ?thesis
    using ensure_loaded_inv(1)[OF inv, of t] by (simp add: add_def Let_def)
next
  case False
  let ?h1 = "ensure_loaded h d t"
  note el = ensure_loaded_inv[OF inv, of t]
  obtain vs items where vs: "indices ?h1 t = Some vs" and items: "corpora ?h1 t = Some items"
    using el(2,3) by auto
  let ?h3 = "?h1\<lparr>indices := (indices ?h1)(t \<mapsto> vs @ [encode tx]),
                    corpora := (corpora ?h1)(t \<mapsto> items @ [(tx, meta)])\<rparr>"
  have al: "aligned encode (Some vs) (Some items)"
    using el(1) vs items unfolding handler_inv_def by metis
  then have al': "aligned encode (Some (vs @ [encode tx])) (Some (items @ [(tx, meta)]))"
    by (simp add: aligned_def)
  have inv3: "handler_inv encode ?h3 d"
    by (rule handler_inv_upd[OF el(1) al'])
  have loaded3: "ensure_loaded ?h3 d t = ?h3"
    using el(4) by (simp add: ensure_loaded_def)
  have gfl: "get_index_file ?h1 t = get_index_file h t" "get_corpus_file ?h1 t = get_corpus_file h t"
    using el(5) by (simp_all add: get_index_file_def get_corpus_file_def)
  have files: "get_index_file ?h3 t = get_index_file h t" "get_corpus_file ?h3 t = get_corpus_file h t"
    using el(5) by (simp_all add: get_index_file_def get_corpus_file_def)
  from save_inv[OF inv3, of t] obtain d' where
    sv: "save ?h3 d t = (Inr (), ?h3, d')" and inv': "handler_inv encode ?h3 d'"
    and f1: "index_files d' (get_index_file h t) = indices ?h3 t"
    and f2: "corpus_files d' (get_corpus_file h t) = corpora ?h3 t"
    by (cases "save ?h3 d t") (auto simp: loaded3 files gfl)
  have "add encode h d tx meta t = (Inr stored_msg, ?h3, d')"
    using False vs items sv by (simp add: add_def Let_def)
  then show ?thesis
    using False inv' vs items f1 f2 by simp
qed

lemma clear_inv:
  assumes inv: "handler_inv encode h d"
  shows "case clear h d t of (r, h', d') \<Rightarrow> r = Inr () \<and> handler_inv encode h' d'"
proof -
  have "aligned encode (Some []) (Some ([] :: (string \<times> 'b) list))"
    by (simp add: aligned_def)
  from handler_inv_upd[OF inv this, of t]
  have "handler_inv encode (h\<lparr>indices := (indices h)(t \<mapsto> []), corpora := (corpora h)(t \<mapsto> [])\<rparr>) d" .
  from save_inv[OF this, of t] show ?thesis
    by (auto simp: clear_def Let_def)
qed

lemma fresh_handler_inv:
  assumes "\<And>t. aligned encode (index_files d (get_index_file (FaissHandler dir :: ('v, 'm) faiss_handler) t))
                   (corpus_files d (get_corpus_file (FaissHandler dir :: ('v, 'm) faiss_handler) t))"
  shows "handler_inv encode (FaissHandler dir :: ('v, 'm) faiss_handler) d"
  using assms unfolding handler_inv_def by (simp add: FaissHandler_def aligned_def get_index_file_def get_corpus_file_def)

text \<open>
  Claim C1. From a state in which index and corpus are aligned (in memory and
  on disk), every \<open>add\<close>, whether it stores the item or refuses a blank text, and
  every \<open>clear\<close> leave, for every data type, an index and a corpus of equal
  length in which vector \<open>i\<close> is the embedding of the text of item \<open>i\<close>; an
  \<open>add\<close> that stores appends one vector and one item, in memory and in the two
  files, and an \<open>add\<close> that refuses changes neither.
\<close>

theorem add_clear_keep_index_aligned_with_corpus:
  assumes "handler_inv encode h d"
    and "add encode h d text meta t = (r, h1, d1)"
    and "clear h d t = (rc, hc, dc)"
  shows "handler_inv encode h1 d1 \<and> handler_inv encode hc dc
    \<and> (\<forall>u vs. indices h1 u = Some vs \<longrightarrow>
          (\<exists>items. corpora h1 u = Some items \<and> length vs = length items
             \<and> (\<forall>i < length items. vs ! i = encode (fst (items ! i)))))
    \<and> (\<forall>u vs. indices hc u = Some vs \<longrightarrow>
          (\<exists>items. corpora hc u = Some items \<and> length vs = length items
             \<and> (\<forall>i < length items. vs ! i = encode (fst (items ! i)))))
    \<and> (if py_strip text = [] then r = Inr empty_text_msg \<and> h1 = ensure_loaded h d t \<and> d1 = d
        else r = Inr stored_msg
          \<and> (\<exists>vs items. indices (ensure_loaded h d t) t = Some vs
                \<and> corpora (ensure_loaded h d t) t = Some items
                \<and> indices h1 t = Some (vs @ [encode text])
                \<and> corpora h1 t = Some (items @ [(text, meta)])
                \<and> index_files d1 (get_index_file h t) = Some (vs @ [encode text])
                \<and> corpus_files d1 (get_corpus_file h t) = Some (items @ [(text, meta)])))"
proof -
  have ab: "handler_inv encode h1 d1 \<and>
    (if py_strip text = [] then r = Inr empty_text_msg \<and> h1 = ensure_loaded h d t \<and> d1 = d
        else r = Inr stored_msg
          \<and> (\<exists>vs items. indices (ensure_loaded h d t) t = Some vs
                \<and> corpora (ensure_loaded h d t) t = Some items
                \<and> indices h1 t = Some (vs @ [encode text])
                \<and> corpora h1 t = Some (items @ [(text, meta)])
                \<and> index_files d1 (get_index_file h t) = Some (vs @ [encode text])
                \<and> corpus_files d1 (get_corpus_file h t) = Some (items @ [(text, meta)])))"
    by (rule add_inv[OF assms(1), where tx="text" and meta=meta and t=t, unfolded assms(2) prod.case])
  then have a: "handler_inv encode h1 d1" by (rule conjunct1)
  have c: "handler_inv encode hc dc"
    using clear_inv[OF assms(1), of t, unfolded assms(3) prod.case] by (rule conjunct2)
  show ?thesis
    using ab c handler_inv_lengths[OF a] handler_inv_lengths[OF c] by blast
qed

theorem add_clear_keep_index_aligned_with_corpus_witness:
  "handler_inv length (FaissHandler ''.'' :: (nat, unit) faiss_handler) \<lparr>index_files = Map.empty, corpus_files = Map.empty\<rparr>
   \<and> fst (add length (FaissHandler ''.'' :: (nat, unit) faiss_handler) \<lparr>index_files = Map.empty, corpus_files = Map.empty\<rparr>
        ''resume text'' () ''resume'') = Inr stored_msg
   \<and> indices (fst (snd (add length (FaissHandler ''.'' :: (nat, unit) faiss_handler) \<lparr>index_files = Map.empty, corpus_files = Map.empty\<rparr>
        ''resume text'' () ''resume''))) ''resume'' = Some [11]
   \<and> corpora (fst (snd (add length (FaissHandler ''.'' :: (nat, unit) faiss_handler) \<lparr>index_files = Map.empty, corpus_files = Map.empty\<rparr>
        ''resume text'' () ''resume''))) ''resume'' = Some [(''resume text'', ())]"
proof -
  let ?h = "FaissHandler ''.'' :: (nat, unit) faiss_handler"
  let ?d = "\<lparr>index_files = Map.empty, corpus_files = Map.empty\<rparr> :: (nat, unit) disk"
  have inv: "handler_inv length ?h ?d"
    by (rule fresh_handler_inv) (simp add: aligned_def)
  have ne: "py_strip ''resume text'' \<noteq> []"
    by code_simp
  have el: "indices (ensure_loaded ?h ?d ''resume'') ''resume'' = Some []"
     "corpora (ensure_loaded ?h ?d ''resume'') ''resume'' = Some []"
    by (simp_all add: ensure_loaded_def FaissHandler_def Let_def)
  obtain r h1 d1 where a: "add length ?h ?d ''resume text'' () ''resume'' = (r, h1, d1)"
    by (cases "add length ?h ?d ''resume text'' () ''resume''")
  obtain rc hc dc where c: "clear ?h ?d ''resume'' = (rc, hc, dc)"
    by (cases "clear ?h ?d ''resume''")
  from add_clear_keep_index_aligned_with_corpus[OF inv a c] ne el
  have "r = Inr stored_msg \<and> indices h1 ''resume'' = Some [11] \<and> corpora h1 ''resume'' = Some [(''resume text'', ())]"
    by simp
  with inv a show ?thesis by simp
qed

text \<open>On a data type that is loaded, \<open>clear\<close> empties index and corpus, in memory and on disk.\<close>

lemma clear_of_loaded_type:
  assumes "data_type \<in> loaded_types h"
  shows "clear h d data_type =
           (Inr (),
            h\<lparr>indices := (indices h)(data_type \<mapsto> []), corpora := (corpora h)(data_type \<mapsto> [])\<rparr>,
            d\<lparr>index_files := (index_files d)(get_index_file h data_type \<mapsto> []),
              corpus_files := (corpus_files d)(get_corpus_file h data_type \<mapsto> [])\<rparr>)"
  using assms by (simp add: clear_def save_def ensure_loaded_def Let_def)

lemma get_corpus_after_clear_of_loaded_type:
  assumes "data_type \<in> loaded_types h" and "clear h d data_type = (r, h1, d1)"
  shows "fst (get_corpus h1 d1 data_type) = Inr []
       \<and> corpus_files d1 (get_corpus_file h data_type) = Some []
       \<and> index_files d1 (get_index_file h data_type) = Some []
       \<and> data_type \<in> loaded_types h1"
  using assms(2) unfolding clear_of_loaded_type[OF assms(1)]
  by (auto simp: get_corpus_def ensure_loaded_def Let_def assms(1))

text \<open>
  Claim C4 fails on a handler that has not loaded the data type yet, over
  persisted files: \<open>clear\<close> resets the two dictionaries and calls \<open>save\<close>, whose
  \<open>_ensure_loaded\<close> then loads the persisted index and corpus over them. After
  the first \<open>clear\<close> the corpus is the persisted one, in memory and on disk.
\<close>

theorem clear_on_fresh_handler_keeps_persisted_corpus:
  "fst (get_corpus
          (fst (snd (clear (FaissHandler ''.'') persisted_course_disk ''course'')))
          (snd (snd (clear (FaissHandler ''.'') persisted_course_disk ''course''))) ''course'')
     = Inr [(''Intro to ML'', ''Coursera'')]
   \<and> corpus_files (snd (snd (clear (FaissHandler ''.'') persisted_course_disk ''course'')))
        ''./faiss_corpus_course.pkl'' = Some [(''Intro to ML'', ''Coursera'')]
   \<and> index_files (snd (snd (clear (FaissHandler ''.'') persisted_course_disk ''course'')))
        ''./faiss_index_course.bin'' = Some [11]"
  by (simp add: clear_def save_def ensure_loaded_def get_corpus_def FaissHandler_def
        persisted_course_disk_def get_index_file_def get_corpus_file_def path_join_def Let_def)

lemma py_index_in_range:
  "- int (length xs) \<le> i \<Longrightarrow> i < int (length xs) \<Longrightarrow>
     py_index xs i = Inr (if i < 0 then xs ! nat (int (length xs) + i) else xs ! nat i)"
  by (simp add: py_index_def)

lemma py_index_minus_one: "xs \<noteq> [] \<Longrightarrow> py_index xs (- 1) = Inr (last xs)"
  by (cases xs rule: rev_cases) (simp_all add: py_index_def nth_append)

lemma collect_results_closed_form:
  assumes "list_all (\<lambda>(i, dist). - int (length corpus) \<le> i) neighbours"
  shows "collect_results corpus filter_fn neighbours =
     Inr (map (\<lambda>(i, dist). \<lparr>res_text = fst (neighbour_item corpus i),
                               res_meta = snd (neighbour_item corpus i),
                               res_similarity = 1 - dist\<rparr>)
            (filter (\<lambda>(i, dist). i < int (length corpus)
                        \<and> kept filter_fn (snd (neighbour_item corpus i))) neighbours))"
  using assms
proof (induction neighbours)
  case Nil
  then show ?case by simp
next
  case (Cons n neighbours)
  obtain i dist where n: "n = (i, dist)" by (cases n)
  have ih: "collect_results corpus filter_fn neighbours =
     Inr (map (\<lambda>(i, dist). \<lparr>res_text = fst (neighbour_item corpus i),
                               res_meta = snd (neighbour_item corpus i),
                               res_similarity = 1 - dist\<rparr>)
            (filter (\<lambda>(i, dist). i < int (length corpus)
                        \<and> kept filter_fn (snd (neighbour_item corpus i))) neighbours))"
    using Cons by simp
  have lo: "- int (length corpus) \<le> i" using Cons.prems n by simp
  show ?case
  proof (cases "i < int (length corpus)")
    case False
    then show ?thesis using ih n by simp
  next
    case True
    have "py_index corpus i = Inr (neighbour_item corpus i)"
      using py_index_in_range[OF lo True] by (simp add: neighbour_item_def)
    then show ?thesis
      using ih n True
      by (cases "neighbour_item corpus i") (simp add: kept_def Let_def split: option.splits)
  qed
qed

text \<open>
  Claim C9. When the labels the index returns are at least -1, \<open>search\<close> raises
  nothing and returns, in the order of the neighbours, one result for each
  neighbour whose label is below \<open>len(corpus)\<close> (and whose item passes the
  filter): a label of \<open>len(corpus)\<close> or more is skipped, so no access is out
  of range. The label -1 passes the guard, and its item is the last one of the
  corpus, with similarity one minus the distance of the padding slot.
\<close>

theorem search_guard_drops_large_labels_but_keeps_padding:
  assumes "corpora (ensure_loaded h d data_type) data_type = Some corpus"
    and "corpus \<noteq> []"
    and "indices (ensure_loaded h d data_type) data_type = Some ix"
    and "index_search ix (encode query_text) top_k = neighbours"
    and "list_all (\<lambda>(i, dist). - 1 \<le> i) neighbours"
  shows "fst (search encode index_search h d query_text data_type top_k filter_fn) =
     Inr (map (\<lambda>(i, dist). \<lparr>res_text = fst (neighbour_item corpus i),
                               res_meta = snd (neighbour_item corpus i),
                               res_similarity = 1 - dist\<rparr>)
            (filter (\<lambda>(i, dist). i < int (length corpus)
                        \<and> kept filter_fn (snd (neighbour_item corpus i))) neighbours))
     \<and> neighbour_item corpus (- 1) = last corpus
     \<and> (\<forall>i. 0 \<le> i \<and> i < int (length corpus) \<longrightarrow> neighbour_item corpus i = corpus ! nat i)"
proof -
  have "list_all (\<lambda>(i, dist). - int (length corpus) \<le> i) neighbours"
    using assms(5) assms(2)
    by (auto simp: list_all_iff intro: order_trans[of _ "- 1"] dest!: bspec
             simp: Suc_leI)
  from collect_results_closed_form[OF this, of filter_fn]
  have "fst (search encode index_search h d query_text data_type top_k filter_fn) =
     Inr (map (\<lambda>(i, dist). \<lparr>res_text = fst (neighbour_item corpus i),
                               res_meta = snd (neighbour_item corpus i),
                               res_similarity = 1 - dist\<rparr>)
            (filter (\<lambda>(i, dist). i < int (length corpus)
                        \<and> kept filter_fn (snd (neighbour_item corpus i))) neighbours))"
    using assms(1-4) by (simp add: search_def Let_def)
  moreover have "neighbour_item corpus (- 1) = last corpus"
    using assms(2) by (cases corpus rule: rev_cases) (simp_all add: neighbour_item_def nth_append)
  moreover have "\<forall>i. 0 \<le> i \<and> i < int (length corpus) \<longrightarrow> neighbour_item corpus i = corpus ! nat i"
    by (simp add: neighbour_item_def)
  ultimately show ?thesis by blast
qed

theorem search_guard_drops_large_labels_but_keeps_padding_witness:
  "fst (search length padded_search
          (fst (snd (add length (FaissHandler ''.'')
                       \<lparr>index_files = Map.empty, corpus_files = Map.empty\<rparr>
                       ''Intro to ML'' ''Coursera'' ''course'')))
          (snd (snd (add length (FaissHandler ''.'')
                       \<lparr>index_files = Map.empty, corpus_files = Map.empty\<rparr>
                       ''Intro to ML'' ''Coursera'' ''course'')))
          ''machine learning'' ''course'' 3 None)
   = Inr [\<lparr>res_text = ''Intro to ML'', res_meta = ''Coursera'', res_similarity = 3 / 4\<rparr>,
          \<lparr>res_text = ''Intro to ML'', res_meta = ''Coursera'',
            res_similarity = - 340282346638528859811704183484516925439\<rparr>,
          \<lparr>res_text = ''Intro to ML'', res_meta = ''Coursera'',
            res_similarity = - 340282346638528859811704183484516925439\<rparr>]"
proof -
  let ?a = "add length (FaissHandler ''.'' :: (nat, string) faiss_handler)
              \<lparr>index_files = Map.empty, corpus_files = Map.empty\<rparr>
              ''Intro to ML'' ''Coursera'' ''course''"
  let ?h = "fst (snd ?a)" and ?d = "snd (snd ?a)"
  have ne: "py_strip ''Intro to ML'' \<noteq> []" by code_simp
  have h: "?h = \<lparr>base_dir = ''.'', indices = [''course'' \<mapsto> [11]],
                 corpora = [''course'' \<mapsto> [(''Intro to ML'', ''Coursera'')]],
                 loaded_types = {''course''}\<rparr>"
    using ne by (simp add: add_def save_def ensure_loaded_def FaissHandler_def Let_def eval_nat_numeral)
  have c: "corpora (ensure_loaded ?h ?d ''course'') ''course'' = Some [(''Intro to ML'', ''Coursera'')]"
    and i: "indices (ensure_loaded ?h ?d ''course'') ''course'' = Some [11]"
    unfolding h by (simp_all add: ensure_loaded_def)
  have n: "padded_search [11] (length ''machine learning'') 3
             = [(0, 1 / 4), (- 1, 340282346638528859811704183484516925440),
                (- 1, 340282346638528859811704183484516925440)]"
    by (simp add: padded_search_def)
  have l: "list_all (\<lambda>(i, dist). - 1 \<le> i)
             [(0::int, 1 / 4 :: rat), (- 1, 340282346638528859811704183484516925440),
              (- 1, 340282346638528859811704183484516925440)]"
    by simp
  have nonempty: "[(''Intro to ML'', ''Coursera'')] \<noteq> []" by simp
  from search_guard_drops_large_labels_but_keeps_padding[where index_search=padded_search
      and encode=length and query_text="''machine learning''" and top_k=3 and filter_fn=None,
      OF c nonempty i n l]
  show ?thesis
    by (simp add: neighbour_item_def kept_def)
qed

text \<open>The second \<open>clear\<close> finds the type loaded and does empty it.\<close>

theorem second_clear_empties_what_first_left:
  "fst (get_corpus
          (fst (snd (clear (fst (snd (clear (FaissHandler ''.'') persisted_course_disk ''course'')))
                           (snd (snd (clear (FaissHandler ''.'') persisted_course_disk ''course'')))
                           ''course'')))
          (snd (snd (clear (fst (snd (clear (FaissHandler ''.'') persisted_course_disk ''course'')))
                           (snd (snd (clear (FaissHandler ''.'') persisted_course_disk ''course'')))
                           ''course''))) ''course'')
     = Inr []"
  by (simp add: clear_def save_def ensure_loaded_def get_corpus_def FaissHandler_def
        persisted_course_disk_def get_index_file_def get_corpus_file_def path_join_def Let_def)

section \<open>Properties of the LLM client\<close>

declare retry_loop.simps [simp del]

lemma after_retries_0 [simp]: "after_retries uniform 0 st = st"
  by (simp add: after_retries_def)

lemma after_retries_fields [simp]:
  "llm_cache (after_retries uniform k st) = llm_cache st"
  "requests_sent (after_retries uniform k st) = requests_sent st + k"
  "length (slept (after_retries uniform k st)) = length (slept st) + k"
  by (simp_all add: after_retries_def)

lemma backoff_after_retries:
  "backoff uniform k ((after_retries uniform k st)\<lparr>requests_sent := Suc (requests_sent st + k)\<rparr>)
     = after_retries uniform (Suc k) st"
  by (simp add: backoff_def after_retries_def)

lemma attempt_step_retryable:
  assumes "retryable (post (requests_sent st) (role, user_prompt, max_tokens))"
    and "int attempt < max_retries - 1"
  shows "attempt_step lib post uniform role user_prompt provider max_tokens max_retries attempt st
           = Continue (backoff uniform attempt (st\<lparr>requests_sent := Suc (requests_sent st)\<rparr>))"
  using assms
  by (auto simp: attempt_step_def retryable_def Let_def split: http_outcome.splits sum.splits bool.splits)

lemma retry_loop_skip:
  assumes "\<forall>j<k. retryable (post (requests_sent st + j) (role, user_prompt, max_tokens))"
    and "int k < max_retries"
  shows "retry_loop lib post uniform role user_prompt provider max_tokens max_retries 0 st
       = retry_loop lib post uniform role user_prompt provider max_tokens max_retries k
           (after_retries uniform k st)"
  using assms
proof (induction k)
  case 0
  then show ?case by simp
next
  case (Suc k)
  have step: "attempt_step lib post uniform role user_prompt provider max_tokens max_retries k
           (after_retries uniform k st) = Continue (after_retries uniform (Suc k) st)"
    using attempt_step_retryable[of post "after_retries uniform k st" role user_prompt max_tokens k max_retries lib uniform provider]
      Suc.prems by (simp add: backoff_after_retries)
  have "retry_loop lib post uniform role user_prompt provider max_tokens max_retries 0 st
       = retry_loop lib post uniform role user_prompt provider max_tokens max_retries k
           (after_retries uniform k st)"
    using Suc by simp
  also have "\<dots> = retry_loop lib post uniform role user_prompt provider max_tokens max_retries (Suc k)
           (after_retries uniform (Suc k) st)"
    using Suc.prems(2) by (subst retry_loop.simps) (simp add: step)
  finally show ?case .
qed

lemma attempt_step_last:
  assumes "retryable (post (requests_sent st) (role, user_prompt, max_tokens))"
    and "int (Suc attempt) = max_retries"
  shows "\<exists>msg. attempt_step lib post uniform role user_prompt provider max_tokens max_retries attempt st
           = Return (JString (cross_mark @ msg)) (st\<lparr>requests_sent := Suc (requests_sent st)\<rparr>)"
  using assms
  by (auto simp: attempt_step_def retryable_def Let_def provider_error_def
           split: http_outcome.splits sum.splits bool.splits)

lemma attempt_step_last_raised:
  assumes "post (requests_sent st) (role, user_prompt, max_tokens) = Raised e"
    and "int (Suc attempt) = max_retries"
  shows "attempt_step lib post uniform role user_prompt provider max_tokens max_retries attempt st
           = Return (JString (cross_mark @ '' Request failed after '' @ str_int max_retries
                                  @ '' attempts: '' @ exc_str e)) (st\<lparr>requests_sent := Suc (requests_sent st)\<rparr>)"
  using assms by (auto simp: attempt_step_def Let_def)

lemma attempt_step_other_status:
  assumes "post (requests_sent st) (role, user_prompt, max_tokens) = Responded response"
    and "status_code response \<noteq> 200" and "status_code response \<noteq> 429"
  shows "attempt_step lib post uniform role user_prompt provider max_tokens max_retries attempt st
           = Return (provider_error provider response) (st\<lparr>requests_sent := Suc (requests_sent st)\<rparr>)"
  using assms by (auto simp: attempt_step_def Let_def)

lemma retry_loop_all_retryable:
  assumes "\<forall>j<Suc k. retryable (post (requests_sent st + j) (role, user_prompt, max_tokens))"
    and "int (Suc k) = max_retries"
  shows "\<exists>msg. retry_loop lib post uniform role user_prompt provider max_tokens max_retries 0 st
       = (JString (cross_mark @ msg),
          (after_retries uniform k st)\<lparr>requests_sent := requests_sent st + Suc k\<rparr>)"
proof -
  have skip: "retry_loop lib post uniform role user_prompt provider max_tokens max_retries 0 st
       = retry_loop lib post uniform role user_prompt provider max_tokens max_retries k
           (after_retries uniform k st)"
    using assms by (intro retry_loop_skip) auto
  have "retryable (post (requests_sent (after_retries uniform k st)) (role, user_prompt, max_tokens))"
    using assms(1) by simp
  from attempt_step_last[where post=post and st="after_retries uniform k st" and lib=lib
      and uniform=uniform and provider=provider, OF this assms(2)]
  obtain msg where "attempt_step lib post uniform role user_prompt provider max_tokens max_retries k
      (after_retries uniform k st)
     = Return (JString (cross_mark @ msg)) ((after_retries uniform k st)\<lparr>requests_sent := requests_sent st + Suc k\<rparr>)"
    by auto
  then have "retry_loop lib post uniform role user_prompt provider max_tokens max_retries k
           (after_retries uniform k st) = (JString (cross_mark @ msg),
          (after_retries uniform k st)\<lparr>requests_sent := requests_sent st + Suc k\<rparr>)"
    using assms(2) by (subst retry_loop.simps) auto
  with skip show ?thesis by auto
qed

lemma retry_loop_other_status:
  assumes "\<forall>j<k. retryable (post (requests_sent st + j) (role, user_prompt, max_tokens))"
    and "int k < max_retries"
    and "post (requests_sent st + k) (role, user_prompt, max_tokens) = Responded response"
    and "status_code response \<noteq> 200" and "status_code response \<noteq> 429"
  shows "retry_loop lib post uniform role user_prompt provider max_tokens max_retries 0 st
       = (provider_error provider response,
          (after_retries uniform k st)\<lparr>requests_sent := requests_sent st + Suc k\<rparr>)"
proof -
  have skip: "retry_loop lib post uniform role user_prompt provider max_tokens max_retries 0 st
       = retry_loop lib post uniform role user_prompt provider max_tokens max_retries k
           (after_retries uniform k st)"
    using assms by (intro retry_loop_skip) auto
  have "post (requests_sent (after_retries uniform k st)) (role, user_prompt, max_tokens) = Responded response"
    using assms(3) by simp
  from attempt_step_other_status[where post=post and st="after_retries uniform k st" and lib=lib
      and uniform=uniform and provider=provider and max_retries=max_retries and attempt=k,
      OF this assms(4,5)]
  have "retry_loop lib post uniform role user_prompt provider max_tokens max_retries k
           (after_retries uniform k st) = (provider_error provider response,
          (after_retries uniform k st)\<lparr>requests_sent := requests_sent st + Suc k\<rparr>)"
    using assms(2) by (subst retry_loop.simps) auto
  with skip show ?thesis by auto
qed

lemma after_retries_sleep_bounds:
  assumes "\<forall>n. 0 \<le> uniform n \<and> uniform n < 1" and "j < k"
  shows "2 ^ j \<le> slept (after_retries uniform k st) ! (length (slept st) + j)
       \<and> slept (after_retries uniform k st) ! (length (slept st) + j) < 2 ^ j + 1"
  using assms by (simp add: after_retries_def nth_append)

lemma soft_is_retryable: "soft_rate_limit r \<Longrightarrow> retryable (Responded r)"
  by (auto simp: soft_rate_limit_def retryable_def split: sum.splits)

lemma attempt_step_last_soft:
  assumes "post (requests_sent st) (role, user_prompt, max_tokens) = Responded response"
    and "soft_rate_limit response"
    and "int (Suc attempt) = max_retries"
  shows "attempt_step lib post uniform role user_prompt provider max_tokens max_retries attempt st
           = Return (provider_error provider response) (st\<lparr>requests_sent := Suc (requests_sent st)\<rparr>)"
  using assms
  by (auto simp: attempt_step_def soft_rate_limit_def Let_def split: sum.splits bool.splits)

lemma attempt_step_hard_limit:
  assumes "post (requests_sent st) (role, user_prompt, max_tokens) = Responded response"
    and "status_code response = 429" and "names_rate_limit response = Inr True"
  shows "attempt_step lib post uniform role user_prompt provider max_tokens max_retries attempt st
           = Return (JString daily_limit_msg) (st\<lparr>requests_sent := Suc (requests_sent st)\<rparr>)"
  using assms by (auto simp: attempt_step_def Let_def)

lemma attempt_step_ok:
  assumes "post (requests_sent st) (role, user_prompt, max_tokens) = Responded response"
    and "status_code response = 200"
  shows "attempt_step lib post uniform role user_prompt provider max_tokens max_retries attempt st
           = Return (ok_result lib response)
               (st\<lparr>requests_sent := Suc (requests_sent st),
                   llm_cache := (llm_cache st)((role, user_prompt, provider, max_tokens) \<mapsto> ok_result lib response)\<rparr>)"
  using assms by (auto simp: attempt_step_def Let_def)

lemma retry_loop_returns_at:
  assumes "\<forall>j<k. retryable (post (requests_sent st + j) (role, user_prompt, max_tokens))"
    and "int k < max_retries"
    and "attempt_step lib post uniform role user_prompt provider max_tokens max_retries k
           (after_retries uniform k st) = Return result st'"
  shows "retry_loop lib post uniform role user_prompt provider max_tokens max_retries 0 st
       = (result, st')"
proof -
  have "retry_loop lib post uniform role user_prompt provider max_tokens max_retries 0 st
       = retry_loop lib post uniform role user_prompt provider max_tokens max_retries k
           (after_retries uniform k st)"
    using assms(1,2) by (rule retry_loop_skip)
  also have "\<dots> = (result, st')"
    using assms(2,3) by (subst retry_loop.simps) simp
  finally show ?thesis .
qed

lemma call_llm_api_miss:
  assumes "llm_cache st (role, user_prompt, ''openrouter'', max_tokens) = None"
  shows "call_llm_api lib post uniform role user_prompt ''openrouter'' max_tokens max_retries st
       = retry_loop lib post uniform role user_prompt ''openrouter'' max_tokens max_retries 0 st"
  using assms by (simp add: call_llm_api_def)

lemma call_llm_api_hit:
  assumes "llm_cache st (role, user_prompt, provider, max_tokens) = Some v"
  shows "call_llm_api lib post uniform role user_prompt provider max_tokens max_retries st = (v, st)"
  using assms by (simp add: call_llm_api_def)

lemma attempt_step_cache_other:
  assumes "key \<noteq> (role, user_prompt, provider, max_tokens)"
  shows "case attempt_step lib post uniform role user_prompt provider max_tokens max_retries attempt st of
           Return result st' \<Rightarrow> llm_cache st' key = llm_cache st key
         | Continue st' \<Rightarrow> llm_cache st' key = llm_cache st key"
  using assms
  by (auto simp: attempt_step_def Let_def backoff_def
           split: http_outcome.splits sum.splits bool.splits)

lemma retry_loop_cache_other:
  assumes "key \<noteq> (role, user_prompt, provider, max_tokens)"
  shows "llm_cache (snd (retry_loop lib post uniform role user_prompt provider max_tokens
                           max_retries attempt st)) key = llm_cache st key"
  using assms
proof (induction lib post uniform role user_prompt provider max_tokens max_retries attempt st
       rule: retry_loop.induct)
  case (1 lib post uniform role user_prompt provider max_tokens max_retries attempt st)
  show ?case
  proof (cases "int attempt < max_retries")
    case False
    then show ?thesis by (subst retry_loop.simps) simp
  next
    case True
    note step = attempt_step_cache_other[OF "1.prems", where lib=lib and post=post
        and uniform=uniform and max_retries=max_retries and attempt=attempt and st=st]
    show ?thesis
    proof (cases "attempt_step lib post uniform role user_prompt provider max_tokens max_retries attempt st")
      case (Return result st')
      then show ?thesis using True step by (subst retry_loop.simps) simp
    next
      case (Continue st')
      then show ?thesis using True step "1.IH"[OF True Continue "1.prems"]
        by (subst retry_loop.simps) simp
    qed
  qed
qed

lemma call_llm_api_keeps_cached:
  assumes "llm_cache st key = Some v"
  shows "llm_cache (snd (call_llm_api lib post uniform role user_prompt provider max_tokens
                           max_retries st)) key = Some v"
proof (cases "llm_cache st (role, user_prompt, provider, max_tokens)")
  case (Some cached)
  then show ?thesis using assms by (simp add: call_llm_api_def)
next
  case None
  then have "key \<noteq> (role, user_prompt, provider, max_tokens)"
    using assms by auto
  from retry_loop_cache_other[OF this, where lib=lib and post=post and uniform=uniform
      and max_retries=max_retries and attempt=0 and st=st] None assms show ?thesis
    by (auto simp add: call_llm_api_def)
qed

lemma run_calls_keeps_cached:
  assumes "llm_cache st key = Some v"
  shows "llm_cache (run_calls lib post uniform calls st) key = Some v"
  using assms
proof (induction calls arbitrary: st)
  case Nil
  then show ?case by simp
next
  case (Cons c calls)
  obtain role user_prompt provider max_tokens max_retries
    where c: "c = (role, user_prompt, provider, max_tokens, max_retries)"
    by (cases c) auto
  show ?case
    unfolding c run_calls.simps
    by (rule Cons.IH) (rule call_llm_api_keeps_cached[OF Cons.prems])
qed

text \<open>
  Claim C2, as amended. On a cache miss with at least one attempt allowed:
  when every request raises, the call makes exactly \<open>max_retries\<close> requests,
  sleeps \<open>2 ** j + jitter\<close> after attempt \<open>j\<close> for each attempt but the last (a
  duration in \<open>[2 ** j, 2 ** j + 1)\<close> for a jitter in \<open>[0, 1)\<close>) and returns a
  string that starts with the failure marker; but a response whose status is
  neither 200 nor 429 (a 5xx included) ends the call at that attempt, with the
  provider's error string and no further request or sleep.
\<close>

theorem retries_cover_transport_errors_not_other_statuses:
  assumes "llm_cache st (role, user_prompt, ''openrouter'', max_tokens) = None"
    and "max_retries = int (Suc m)"
    and "\<forall>n. 0 \<le> uniform n \<and> uniform n < 1"
  shows
    "((\<forall>j<Suc m. \<exists>e. post (requests_sent st + j) (role, user_prompt, max_tokens) = Raised e) \<longrightarrow>
        (\<exists>msg. call_llm_api lib post uniform role user_prompt ''openrouter'' max_tokens max_retries st
           = (JString (cross_mark @ msg),
              (after_retries uniform m st)\<lparr>requests_sent := requests_sent st + Suc m\<rparr>)))
     \<and> (\<forall>j<m. 2 ^ j \<le> slept (after_retries uniform m st) ! (length (slept st) + j)
              \<and> slept (after_retries uniform m st) ! (length (slept st) + j) < 2 ^ j + 1)
     \<and> length (slept (after_retries uniform m st)) = length (slept st) + m
     \<and> (\<forall>k response.
           k \<le> m \<and> (\<forall>j<k. retryable (post (requests_sent st + j) (role, user_prompt, max_tokens)))
           \<and> post (requests_sent st + k) (role, user_prompt, max_tokens) = Responded response
           \<and> status_code response \<noteq> 200 \<and> status_code response \<noteq> 429 \<longrightarrow>
           call_llm_api lib post uniform role user_prompt ''openrouter'' max_tokens max_retries st
             = (provider_error ''openrouter'' response,
                (after_retries uniform k st)\<lparr>requests_sent := requests_sent st + Suc k\<rparr>))"
proof (intro conjI allI impI)
  assume a: "\<forall>j<Suc m. \<exists>e. post (requests_sent st + j) (role, user_prompt, max_tokens) = Raised e"
  have "\<forall>j<Suc m. retryable (post (requests_sent st + j) (role, user_prompt, max_tokens))"
  proof (intro allI impI)
    fix j assume "j < Suc m"
    with a obtain e where "post (requests_sent st + j) (role, user_prompt, max_tokens) = Raised e"
      by blast
    then show "retryable (post (requests_sent st + j) (role, user_prompt, max_tokens))"
      by (simp add: retryable_def)
  qed
  from retry_loop_all_retryable[where post=post and st=st and k=m and max_retries=max_retries
      and lib=lib and uniform=uniform and provider="''openrouter''", OF this] assms(2)
  show "\<exists>msg. call_llm_api lib post uniform role user_prompt ''openrouter'' max_tokens max_retries st
           = (JString (cross_mark @ msg),
              (after_retries uniform m st)\<lparr>requests_sent := requests_sent st + Suc m\<rparr>)"
    by (simp add: call_llm_api_miss[OF assms(1)])
next
  fix j assume "j < m"
  from after_retries_sleep_bounds[OF assms(3) this, of st]
  show "2 ^ j \<le> slept (after_retries uniform m st) ! (length (slept st) + j)"
    and "slept (after_retries uniform m st) ! (length (slept st) + j) < 2 ^ j + 1"
    by simp_all
next
  show "length (slept (after_retries uniform m st)) = length (slept st) + m"
    by simp
next
  fix k response
  assume h: "k \<le> m \<and> (\<forall>j<k. retryable (post (requests_sent st + j) (role, user_prompt, max_tokens)))
           \<and> post (requests_sent st + k) (role, user_prompt, max_tokens) = Responded response
           \<and> status_code response \<noteq> 200 \<and> status_code response \<noteq> 429"
  then have "int k < max_retries" using assms(2) by simp
  from retry_loop_other_status[where post=post and st=st and k=k and max_retries=max_retries
      and lib=lib and uniform=uniform and provider="''openrouter''" and response=response
      and role=role and user_prompt=user_prompt and max_tokens=max_tokens, OF _ this] h
  show "call_llm_api lib post uniform role user_prompt ''openrouter'' max_tokens max_retries st
             = (provider_error ''openrouter'' response,
                (after_retries uniform k st)\<lparr>requests_sent := requests_sent st + Suc k\<rparr>)"
    by (simp add: call_llm_api_miss[OF assms(1)])
qed

text \<open>
  Claim C2 as stated fails: against a server that answers 500, a call allowed
  three attempts sends one request, never sleeps and returns the error string.
\<close>

theorem server_error_ends_call_on_first_attempt:
  "fst (call_llm_api sample_lib server_error_post (\<lambda>n. 1 / 2) ''You are a career strategist.''
          ''Suggest 3 job roles'' ''openrouter'' 700 3 fresh_client)
     = JString (cross_mark @ '' Openrouter error: 500 - Internal Server Error'')
   \<and> requests_sent (snd (call_llm_api sample_lib server_error_post (\<lambda>n. 1 / 2)
          ''You are a career strategist.'' ''Suggest 3 job roles'' ''openrouter'' 700 3 fresh_client)) = 1
   \<and> slept (snd (call_llm_api sample_lib server_error_post (\<lambda>n. 1 / 2)
          ''You are a career strategist.'' ''Suggest 3 job roles'' ''openrouter'' 700 3 fresh_client)) = []"
  by (simp add: call_llm_api_def fresh_client_def retry_loop.simps attempt_step_def
        server_error_post_def provider_error_def capitalize_def upper_char_def lower_char_def upper_letters_def lower_letters_def
        str_int_def str_nat.simps Let_def)

theorem retries_cover_transport_errors_not_other_statuses_witness:
  "(\<exists>msg. call_llm_api sample_lib refusing_post (\<lambda>n. 1 / 2) ''You are a career strategist.''
            ''Suggest 3 job roles'' ''openrouter'' 700 3 fresh_client
         = (JString (cross_mark @ msg),
            \<lparr>llm_cache = Map.empty, requests_sent = 3, slept = [3 / 2, 5 / 2]\<rparr>))
   \<and> call_llm_api sample_lib server_error_post (\<lambda>n. 1 / 2) ''You are a career strategist.''
            ''Suggest 3 job roles'' ''openrouter'' 700 3 fresh_client
         = (provider_error ''openrouter''
              \<lparr>status_code = 500, body_text = ''Internal Server Error'',
                body_json = Inl (PyExc JSONDecodeError ''Expecting value: line 1 column 1 (char 0)'')\<rparr>,
            \<lparr>llm_cache = Map.empty, requests_sent = 1, slept = []\<rparr>)"
proof -
  have miss: "llm_cache fresh_client (''You are a career strategist.'', ''Suggest 3 job roles'',
                ''openrouter'', 700) = None"
    by (simp add: fresh_client_def)
  have three: "(3::int) = int (Suc 2)" by simp
  have jitter: "\<forall>n. (0::rat) \<le> (\<lambda>n. 1 / 2) n \<and> (\<lambda>n. 1 / 2) n < (1::rat)" by simp
  note inst = retries_cover_transport_errors_not_other_statuses[OF miss three jitter]
  have two: "[0..<2] = [0, Suc 0]" by (simp add: upt_rec)
  have a: "\<exists>msg. call_llm_api sample_lib refusing_post (\<lambda>n. 1 / 2) ''You are a career strategist.''
            ''Suggest 3 job roles'' ''openrouter'' 700 3 fresh_client
         = (JString (cross_mark @ msg),
            \<lparr>llm_cache = Map.empty, requests_sent = 3, slept = [3 / 2, 5 / 2]\<rparr>)"
    using inst[of refusing_post sample_lib, THEN conjunct1]
    by (simp add: refusing_post_def after_retries_def fresh_client_def two)
  have b: "call_llm_api sample_lib server_error_post (\<lambda>n. 1 / 2) ''You are a career strategist.''
            ''Suggest 3 job roles'' ''openrouter'' 700 3 fresh_client
         = (provider_error ''openrouter''
              \<lparr>status_code = 500, body_text = ''Internal Server Error'',
                body_json = Inl (PyExc JSONDecodeError ''Expecting value: line 1 column 1 (char 0)'')\<rparr>,
            \<lparr>llm_cache = Map.empty, requests_sent = 1, slept = []\<rparr>)"
    using inst[of server_error_post sample_lib, THEN conjunct2, THEN conjunct2, THEN conjunct2,
              THEN spec, THEN spec, of 0]
    by (simp add: server_error_post_def after_retries_def fresh_client_def)
  from a b show ?thesis by (rule conjI)
qed

lemma names_rate_limit_hard:
  assumes "body_json response = Inr data"
    and "py_get data ''error'' (JObject []) = Inr err"
    and "py_get err ''message'' (JString []) = Inr (JString msg)"
  shows "names_rate_limit response = Inr (contains (py_lower msg) ''rate limit'')"
  using assms by (simp add: names_rate_limit_def try_bind_def)

lemma unparseable_is_soft:
  assumes "status_code response = 429" and "body_json response = Inl e"
    and "exc_cls e = JSONDecodeError"
  shows "soft_rate_limit response"
  using assms by (simp add: soft_rate_limit_def names_rate_limit_def try_bind_def)

text \<open>
  Claim C7. A 429 response whose body parses to an object with an error message
  containing \<open>rate limit\<close>, in any letter case, ends the call at the attempt that
  received it with the daily-limit guidance: on the first attempt (\<open>k = 0\<close>) one
  request is sent and nothing is slept. When every attempt receives a 429
  response whose body does not parse or whose message lacks the marker, the
  call sends \<open>max_retries\<close> requests, sleeping \<open>2 ** j + jitter\<close> between them,
  and returns the provider's error string for the last response.
\<close>

theorem hard_rate_limit_returns_guidance_at_once:
  assumes "llm_cache st (role, user_prompt, ''openrouter'', max_tokens) = None"
    and "max_retries = int (Suc m)"
  shows
    "(\<forall>k response data err msg.
        k \<le> m \<and> (\<forall>j<k. retryable (post (requests_sent st + j) (role, user_prompt, max_tokens)))
        \<and> post (requests_sent st + k) (role, user_prompt, max_tokens) = Responded response
        \<and> status_code response = 429 \<and> body_json response = Inr data
        \<and> py_get data ''error'' (JObject []) = Inr err
        \<and> py_get err ''message'' (JString []) = Inr (JString msg)
        \<and> contains (py_lower msg) ''rate limit'' \<longrightarrow>
        call_llm_api lib post uniform role user_prompt ''openrouter'' max_tokens max_retries st
          = (JString daily_limit_msg,
             (after_retries uniform k st)\<lparr>requests_sent := requests_sent st + Suc k\<rparr>))
     \<and> (\<forall>r. (\<forall>j<Suc m. post (requests_sent st + j) (role, user_prompt, max_tokens) = Responded (r j)
                    \<and> soft_rate_limit (r j)) \<longrightarrow>
           call_llm_api lib post uniform role user_prompt ''openrouter'' max_tokens max_retries st
             = (provider_error ''openrouter'' (r m),
                (after_retries uniform m st)\<lparr>requests_sent := requests_sent st + Suc m\<rparr>))
     \<and> (\<forall>response e. status_code response = 429 \<and> body_json response = Inl e
            \<and> exc_cls e = JSONDecodeError \<longrightarrow> soft_rate_limit response)
     \<and> (\<forall>response data err msg. status_code response = 429 \<and> body_json response = Inr data
            \<and> py_get data ''error'' (JObject []) = Inr err
            \<and> py_get err ''message'' (JString []) = Inr (JString msg)
            \<and> \<not> contains (py_lower msg) ''rate limit'' \<longrightarrow> soft_rate_limit response)"
proof (intro conjI allI impI)
  fix k response data err msg
  assume h: "k \<le> m \<and> (\<forall>j<k. retryable (post (requests_sent st + j) (role, user_prompt, max_tokens)))
        \<and> post (requests_sent st + k) (role, user_prompt, max_tokens) = Responded response
        \<and> status_code response = 429 \<and> body_json response = Inr data
        \<and> py_get data ''error'' (JObject []) = Inr err
        \<and> py_get err ''message'' (JString []) = Inr (JString msg)
        \<and> contains (py_lower msg) ''rate limit''"
  then have hard: "names_rate_limit response = Inr True"
    using names_rate_limit_hard[of response data err msg] by simp
  have lt: "int k < max_retries" using h assms(2) by simp
  have p: "post (requests_sent (after_retries uniform k st)) (role, user_prompt, max_tokens)
             = Responded response"
    using h by simp
  have step: "attempt_step lib post uniform role user_prompt ''openrouter'' max_tokens max_retries k
                (after_retries uniform k st)
              = Return (JString daily_limit_msg)
                  ((after_retries uniform k st)\<lparr>requests_sent := requests_sent st + Suc k\<rparr>)"
    using attempt_step_hard_limit[where post=post and st="after_retries uniform k st"
        and lib=lib and uniform=uniform and provider="''openrouter''"
        and max_retries=max_retries and attempt=k, OF p] h hard
    by simp
  have "\<forall>j<k. retryable (post (requests_sent st + j) (role, user_prompt, max_tokens))"
    using h by blast
  from retry_loop_returns_at[OF this lt step]
  show "call_llm_api lib post uniform role user_prompt ''openrouter'' max_tokens max_retries st
          = (JString daily_limit_msg,
             (after_retries uniform k st)\<lparr>requests_sent := requests_sent st + Suc k\<rparr>)"
    by (simp add: call_llm_api_miss[OF assms(1)])
next
  fix r
  assume h: "\<forall>j<Suc m. post (requests_sent st + j) (role, user_prompt, max_tokens) = Responded (r j)
                    \<and> soft_rate_limit (r j)"
  have lt: "int m < max_retries" using assms(2) by simp
  have retr: "\<forall>j<m. retryable (post (requests_sent st + j) (role, user_prompt, max_tokens))"
    using h soft_is_retryable by (metis less_Suc_eq)
  have p: "post (requests_sent (after_retries uniform m st)) (role, user_prompt, max_tokens)
             = Responded (r m)" and s: "soft_rate_limit (r m)"
    using h by simp_all
  have last: "int (Suc m) = max_retries" using assms(2) by simp
  have step: "attempt_step lib post uniform role user_prompt ''openrouter'' max_tokens max_retries m
                (after_retries uniform m st)
              = Return (provider_error ''openrouter'' (r m))
                  ((after_retries uniform m st)\<lparr>requests_sent := requests_sent st + Suc m\<rparr>)"
    using attempt_step_last_soft[where post=post and st="after_retries uniform m st"
        and lib=lib and uniform=uniform and provider="''openrouter''"
        and max_retries=max_retries and attempt=m, OF p s last]
    by simp
  from retry_loop_returns_at[OF retr lt step]
  show "call_llm_api lib post uniform role user_prompt ''openrouter'' max_tokens max_retries st
             = (provider_error ''openrouter'' (r m),
                (after_retries uniform m st)\<lparr>requests_sent := requests_sent st + Suc m\<rparr>)"
    by (simp add: call_llm_api_miss[OF assms(1)])
next
  fix response :: http_response and e
  assume "status_code response = 429 \<and> body_json response = Inl e \<and> exc_cls e = JSONDecodeError"
  then show "soft_rate_limit response"
    using unparseable_is_soft by blast
next
  fix response :: http_response and data err msg
  assume h: "status_code response = 429 \<and> body_json response = Inr data
            \<and> py_get data ''error'' (JObject []) = Inr err
            \<and> py_get err ''message'' (JString []) = Inr (JString msg)
            \<and> \<not> contains (py_lower msg) ''rate limit''"
  then have "names_rate_limit response = Inr False"
    using names_rate_limit_hard[of response data err msg] by simp
  with h show "soft_rate_limit response"
    by (simp add: soft_rate_limit_def)
qed

lemma contains_rate_limit:
  "contains (py_lower ''Rate limit exceeded: free-models-per-day'') ''rate limit''"
  by (simp add: py_lower_def lower_char_def upper_letters_def lower_letters_def startswith_def)

theorem hard_rate_limit_returns_guidance_at_once_witness:
  "call_llm_api sample_lib daily_quota_post (\<lambda>n. 1 / 2) ''You are an interview coach.''
       ''Generate 5 questions'' ''openrouter'' 500 3 fresh_client
     = (JString daily_limit_msg, \<lparr>llm_cache = Map.empty, requests_sent = 1, slept = []\<rparr>)
   \<and> call_llm_api sample_lib busy_post (\<lambda>n. 1 / 2) ''You are an interview coach.''
       ''Generate 5 questions'' ''openrouter'' 500 3 fresh_client
     = (provider_error ''openrouter''
          \<lparr>status_code = 429, body_text = ''Too Many Requests'',
            body_json = Inl (PyExc JSONDecodeError ''Expecting value: line 1 column 1 (char 0)'')\<rparr>,
        \<lparr>llm_cache = Map.empty, requests_sent = 3, slept = [3 / 2, 5 / 2]\<rparr>)"
proof -
  have miss: "llm_cache fresh_client (''You are an interview coach.'', ''Generate 5 questions'',
                ''openrouter'', 500) = None"
    by (simp add: fresh_client_def)
  have three: "(3::int) = int (Suc 2)" by simp
  note inst = hard_rate_limit_returns_guidance_at_once[OF miss three]
  have two: "[0..<2] = [0, Suc 0]" by (simp add: upt_rec)
  have a: "call_llm_api sample_lib daily_quota_post (\<lambda>n. 1 / 2) ''You are an interview coach.''
       ''Generate 5 questions'' ''openrouter'' 500 3 fresh_client
     = (JString daily_limit_msg, \<lparr>llm_cache = Map.empty, requests_sent = 1, slept = []\<rparr>)"
    using inst[of daily_quota_post sample_lib "\<lambda>n. 1 / 2", THEN conjunct1,
        THEN spec, THEN spec, THEN spec, THEN spec, THEN spec,
        of 0 "\<lparr>status_code = 429, body_text = ''quota'',
                body_json = Inr (JObject [(''error'',
                   JObject [(''message'', JString ''Rate limit exceeded: free-models-per-day'')])])\<rparr>"
           "JObject [(''error'', JObject [(''message'', JString ''Rate limit exceeded: free-models-per-day'')])]"
           "JObject [(''message'', JString ''Rate limit exceeded: free-models-per-day'')]"
           "''Rate limit exceeded: free-models-per-day''"]
      contains_rate_limit
    by (simp add: daily_quota_post_def after_retries_def fresh_client_def)
  have soft: "soft_rate_limit \<lparr>status_code = 429, body_text = ''Too Many Requests'',
            body_json = Inl (PyExc JSONDecodeError ''Expecting value: line 1 column 1 (char 0)'')\<rparr>"
    by (simp add: soft_rate_limit_def names_rate_limit_def try_bind_def)
  have b: "call_llm_api sample_lib busy_post (\<lambda>n. 1 / 2) ''You are an interview coach.''
       ''Generate 5 questions'' ''openrouter'' 500 3 fresh_client
     = (provider_error ''openrouter''
          \<lparr>status_code = 429, body_text = ''Too Many Requests'',
            body_json = Inl (PyExc JSONDecodeError ''Expecting value: line 1 column 1 (char 0)'')\<rparr>,
        \<lparr>llm_cache = Map.empty, requests_sent = 3, slept = [3 / 2, 5 / 2]\<rparr>)"
    using inst[of busy_post sample_lib "\<lambda>n. 1 / 2", THEN conjunct2, THEN conjunct1, THEN spec,
        of "\<lambda>j. \<lparr>status_code = 429, body_text = ''Too Many Requests'',
            body_json = Inl (PyExc JSONDecodeError ''Expecting value: line 1 column 1 (char 0)'')\<rparr>"]
      soft
    by (simp add: busy_post_def after_retries_def fresh_client_def two)
  from a b show ?thesis by (rule conjI)
qed

lemma ok_result_unparsed:
  "body_json response = Inl e \<Longrightarrow>
     ok_result lib response
       = JString (cross_mark @ '' Failed to parse JSON: '' @ exc_str e @ '' | Raw: ''
                  @ body_text response)"
  by (simp add: ok_result_def try_bind_def)

lemma ok_result_no_choice:
  "body_json response = Inr data \<Longrightarrow> choices_content data = Inr None \<Longrightarrow>
     ok_result lib response
       = JString (cross_mark @ '' Unexpected response structure: '' @ str_of lib data)"
  by (simp add: ok_result_def try_bind_def)

lemma ok_result_raising:
  "body_json response = Inr data \<Longrightarrow> choices_content data = Inl e \<Longrightarrow>
     ok_result lib response
       = JString (cross_mark @ '' Failed to parse JSON: '' @ exc_str e @ '' | Raw: ''
                  @ body_text response)"
  by (simp add: ok_result_def try_bind_def)

text \<open>
  Claim C10. When the attempt that ends a call receives a response with status
  200, what the call returns is stored in the cache under the request's key,
  also when it is a failure string: the body did not parse, navigating it
  raised, or it holds no choice. After any sequence of further calls, a call
  with the same key returns that same string and leaves the state as it was: no
  request is sent and nothing is slept.
\<close>

theorem failure_of_ok_response_is_cached_for_good:
  assumes "llm_cache st (role, user_prompt, ''openrouter'', max_tokens) = None"
    and "max_retries = int (Suc m)"
    and "k \<le> m"
    and "\<forall>j<k. retryable (post (requests_sent st + j) (role, user_prompt, max_tokens))"
    and "post (requests_sent st + k) (role, user_prompt, max_tokens) = Responded response"
    and "status_code response = 200"
    and "call_llm_api lib post uniform role user_prompt ''openrouter'' max_tokens max_retries st
           = (result, st1)"
  shows
    "result = ok_result lib response
     \<and> llm_cache st1 (role, user_prompt, ''openrouter'', max_tokens) = Some result
     \<and> requests_sent st1 = requests_sent st + Suc k
     \<and> (\<forall>e. body_json response = Inl e \<longrightarrow>
           result = JString (cross_mark @ '' Failed to parse JSON: '' @ exc_str e @ '' | Raw: ''
                             @ body_text response))
     \<and> (\<forall>data e. body_json response = Inr data \<and> choices_content data = Inl e \<longrightarrow>
           result = JString (cross_mark @ '' Failed to parse JSON: '' @ exc_str e @ '' | Raw: ''
                             @ body_text response))
     \<and> (\<forall>data. body_json response = Inr data \<and> choices_content data = Inr None \<longrightarrow>
           result = JString (cross_mark @ '' Unexpected response structure: '' @ str_of lib data))
     \<and> (\<forall>calls later_retries.
           call_llm_api lib post uniform role user_prompt ''openrouter'' max_tokens later_retries
               (run_calls lib post uniform calls st1)
             = (result, run_calls lib post uniform calls st1))"
proof -
  have lt: "int k < max_retries" using assms(2,3) by simp
  have p: "post (requests_sent (after_retries uniform k st)) (role, user_prompt, max_tokens)
             = Responded response"
    using assms(5) by simp
  let ?st1 = "(after_retries uniform k st)
                \<lparr>requests_sent := requests_sent st + Suc k,
                  llm_cache := (llm_cache st)((role, user_prompt, ''openrouter'', max_tokens)
                                 \<mapsto> ok_result lib response)\<rparr>"
  have step: "attempt_step lib post uniform role user_prompt ''openrouter'' max_tokens max_retries k
                (after_retries uniform k st)
              = Return (ok_result lib response) ?st1"
    using attempt_step_ok[where post=post and st="after_retries uniform k st"
        and lib=lib and uniform=uniform and provider="''openrouter''"
        and max_retries=max_retries and attempt=k, OF p assms(6)]
    by simp
  have "(result, st1) = (ok_result lib response, ?st1)"
    using retry_loop_returns_at[OF assms(4) lt step] assms(7)
    by (simp only: call_llm_api_miss[OF assms(1)])
  then have r: "result = ok_result lib response" and s: "st1 = ?st1"
    by blast+
  have cached: "llm_cache st1 (role, user_prompt, ''openrouter'', max_tokens) = Some result"
    using r s by simp
  have later: "call_llm_api lib post uniform role user_prompt ''openrouter'' max_tokens later_retries
               (run_calls lib post uniform calls st1)
             = (result, run_calls lib post uniform calls st1)" for calls later_retries
    by (rule call_llm_api_hit) (rule run_calls_keeps_cached[OF cached])
  show ?thesis
    using r cached later s ok_result_unparsed[of response _ lib]
      ok_result_raising[of response _ _ lib] ok_result_no_choice[of response _ lib]
    by auto
qed

theorem failure_of_ok_response_is_cached_for_good_witness:
  "fst (call_llm_api sample_lib html_post (\<lambda>n. 1 / 2) ''You are a career strategist.''
          ''Suggest 3 job roles'' ''openrouter'' 300 3 fresh_client)
     = JString (cross_mark @ '' Failed to parse JSON: Expecting value: line 1 column 1 (char 0)''
                @ '' | Raw: <html>Bad Gateway</html>'')
   \<and> requests_sent (snd (call_llm_api sample_lib html_post (\<lambda>n. 1 / 2)
          ''You are a career strategist.'' ''Suggest 3 job roles'' ''openrouter'' 300 3 fresh_client)) = 1
   \<and> call_llm_api sample_lib html_post (\<lambda>n. 1 / 2) ''You are a career strategist.''
          ''Suggest 3 job roles'' ''openrouter'' 300 3
          (run_calls sample_lib html_post (\<lambda>n. 1 / 2)
             [(''You are an interview coach.'', ''Generate 5 questions'', ''openrouter'', 500, 3)]
             (snd (call_llm_api sample_lib html_post (\<lambda>n. 1 / 2) ''You are a career strategist.''
                ''Suggest 3 job roles'' ''openrouter'' 300 3 fresh_client)))
     = (JString (cross_mark @ '' Failed to parse JSON: Expecting value: line 1 column 1 (char 0)''
                @ '' | Raw: <html>Bad Gateway</html>''),
        run_calls sample_lib html_post (\<lambda>n. 1 / 2)
             [(''You are an interview coach.'', ''Generate 5 questions'', ''openrouter'', 500, 3)]
             (snd (call_llm_api sample_lib html_post (\<lambda>n. 1 / 2) ''You are a career strategist.''
                ''Suggest 3 job roles'' ''openrouter'' 300 3 fresh_client)))"
proof -
  let ?call = "call_llm_api sample_lib html_post (\<lambda>n. 1 / 2) ''You are a career strategist.''
          ''Suggest 3 job roles'' ''openrouter'' 300 3 fresh_client"
  have miss: "llm_cache fresh_client (''You are a career strategist.'', ''Suggest 3 job roles'',
                ''openrouter'', 300) = None"
    by (simp add: fresh_client_def)
  have three: "(3::int) = int (Suc 2)" by simp
  have k: "(0::nat) \<le> 2" by simp
  have none: "\<forall>j<(0::nat). retryable (html_post (requests_sent fresh_client + j)
                (''You are a career strategist.'', ''Suggest 3 job roles'', 300))"
    by simp
  have p: "html_post (requests_sent fresh_client + 0)
             (''You are a career strategist.'', ''Suggest 3 job roles'', 300)
           = Responded \<lparr>status_code = 200, body_text = ''<html>Bad Gateway</html>'',
                body_json = Inl (PyExc JSONDecodeError ''Expecting value: line 1 column 1 (char 0)'')\<rparr>"
    by (simp add: html_post_def)
  have ok: "status_code \<lparr>status_code = 200, body_text = ''<html>Bad Gateway</html>'',
                body_json = Inl (PyExc JSONDecodeError ''Expecting value: line 1 column 1 (char 0)'')\<rparr> = 200"
    by simp
  have c: "?call = (fst ?call, snd ?call)" by simp
  note inst = failure_of_ok_response_is_cached_for_good[OF miss three k none p ok c]
  have res: "fst ?call = JString (cross_mark @ '' Failed to parse JSON: Expecting value: line 1 column 1 (char 0)''
                @ '' | Raw: <html>Bad Gateway</html>'')"
    using inst by (simp add: ok_result_def try_bind_def)
  have reqs: "requests_sent (snd ?call) = 1"
    using inst by (simp add: fresh_client_def)
  have later: "call_llm_api sample_lib html_post (\<lambda>n. 1 / 2) ''You are a career strategist.''
          ''Suggest 3 job roles'' ''openrouter'' 300 3
          (run_calls sample_lib html_post (\<lambda>n. 1 / 2)
             [(''You are an interview coach.'', ''Generate 5 questions'', ''openrouter'', 500, 3)]
             (snd ?call))
     = (fst ?call, run_calls sample_lib html_post (\<lambda>n. 1 / 2)
             [(''You are an interview coach.'', ''Generate 5 questions'', ''openrouter'', 500, 3)]
             (snd ?call))"
    using inst by blast
  show ?thesis
    using res reqs later by (simp only:)
qed

section \<open>Properties of the JSON extraction\<close>

lemma py_find_bounds: "py_find s c = -1 \<or> (0 \<le> py_find s c \<and> py_find s c < int (length s))"
  by (induction s) (auto simp: Let_def)

lemma py_find_none: "c \<notin> set s \<Longrightarrow> py_find s c = -1"
  by (induction s) (auto simp: Let_def)

lemma py_find_first: "c \<notin> set pre \<Longrightarrow> py_find (pre @ c # rest) c = int (length pre)"
  by (induction pre) (auto simp: Let_def)

lemma py_find_some: "c \<in> set s \<Longrightarrow> 0 \<le> py_find s c"
  using py_find_bounds[of s c] py_find_first
  by (metis in_set_conv_decomp_first of_nat_0_le_iff)

lemma py_find_later:
  assumes "c \<notin> set pre" and "c \<noteq> x"
  shows "py_find (pre @ x # rest) c = -1 \<or> int (length pre) < py_find (pre @ x # rest) c"
  using assms
proof (induction pre)
  case Nil
  then show ?case using py_find_bounds[of rest c] by (auto simp: Let_def)
next
  case (Cons a pre)
  then show ?case by (auto simp: Let_def)
qed

lemma py_rfind_last: "c \<notin> set post \<Longrightarrow> py_rfind (pre @ c # post) c = int (length pre)"
  using py_find_first[of c "rev post" "rev pre"] by (simp add: py_rfind_def Let_def)

lemma py_rfind_none: "c \<notin> set s \<Longrightarrow> py_rfind s c = -1"
  using py_find_none[of c "rev s"] by (simp add: py_rfind_def)

lemma py_rfind_before:
  assumes "c \<notin> set rest"
  shows "py_rfind (pre @ rest) c < int (length pre)"
proof (cases "c \<in> set pre")
  case False
  then show ?thesis using assms py_rfind_none[of c "pre @ rest"] by simp
next
  case True
  then obtain a b where ab: "pre = a @ c # b" and "c \<notin> set b"
    by (meson split_list_last)
  then have "py_rfind (a @ c # (b @ rest)) c = int (length a)"
    using assms by (intro py_rfind_last) simp
  then show ?thesis using ab by simp
qed

lemma py_slice_middle:
  "py_slice (pre @ mid @ post) (int (length pre)) (int (length pre) + int (length mid)) = mid"
  by (simp add: py_slice_def slice_bound_def Let_def)

lemma py_slice_empty:
  "0 \<le> lo \<Longrightarrow> 0 \<le> hi \<Longrightarrow> hi \<le> lo \<Longrightarrow> py_slice xs lo hi = []"
  by (auto simp: py_slice_def slice_bound_def Let_def)

lemma json_start_first:
  assumes "c = CHR ''{'' \<or> c = CHR ''[''"
    and "CHR ''{'' \<notin> set pre" and "CHR ''['' \<notin> set pre"
  shows "(let first_brace = py_find (pre @ c # rest) CHR ''{'';
              first_bracket = py_find (pre @ c # rest) CHR ''[''
          in if first_brace \<noteq> -1 \<and> (first_bracket = -1 \<or> first_brace < first_bracket)
             then first_brace
             else if first_bracket \<noteq> -1 then first_bracket
             else -1) = int (length pre)"
proof (cases "c = CHR ''{''")
  case True
  have "py_find (pre @ c # rest) CHR ''{'' = int (length pre)"
    using True assms(2) by (simp add: py_find_first)
  moreover have "py_find (pre @ c # rest) CHR ''['' = -1
      \<or> int (length pre) < py_find (pre @ c # rest) CHR ''[''"
    using True assms(3) by (intro py_find_later) auto
  ultimately show ?thesis by (auto simp: Let_def)
next
  case False
  then have c: "c = CHR ''[''" using assms(1) by simp
  have "py_find (pre @ c # rest) CHR ''['' = int (length pre)"
    using c assms(3) by (simp add: py_find_first)
  moreover have "py_find (pre @ c # rest) CHR ''{'' = -1
      \<or> int (length pre) < py_find (pre @ c # rest) CHR ''{''"
    using c assms(2) by (intro py_find_later) auto
  ultimately show ?thesis by (auto simp: Let_def)
qed

lemma extract_closed:
  assumes "c = CHR ''{'' \<or> c = CHR ''[''"
    and "CHR ''{'' \<notin> set pre" and "CHR ''['' \<notin> set pre"
    and "closing c \<notin> set post"
  shows "extract_json_text (pre @ [c] @ mid @ [closing c] @ post) = [c] @ mid @ [closing c]"
proof -
  let ?s = "pre @ [c] @ mid @ [closing c] @ post"
  have start: "(let first_brace = py_find ?s CHR ''{'';
              first_bracket = py_find ?s CHR ''[''
          in if first_brace \<noteq> -1 \<and> (first_bracket = -1 \<or> first_brace < first_bracket)
             then first_brace
             else if first_bracket \<noteq> -1 then first_bracket
             else -1) = int (length pre)"
    using json_start_first[OF assms(1-3), of "mid @ [closing c] @ post"] by simp
  have ch: "?s ! length pre = c" by simp
  have "py_rfind ((pre @ [c] @ mid) @ closing c # post) (closing c) = int (length (pre @ [c] @ mid))"
    using assms(4) by (rule py_rfind_last)
  then have rf: "py_rfind ?s (closing c) + 1 = int (length pre) + int (length ([c] @ mid @ [closing c]))"
    by simp
  have sl: "py_slice (pre @ ([c] @ mid @ [closing c]) @ post) (int (length pre))
              (int (length pre) + int (length ([c] @ mid @ [closing c]))) = [c] @ mid @ [closing c]"
    by (rule py_slice_middle)
  show ?thesis
    unfolding extract_json_text_def start[unfolded Let_def] Let_def
    using ch rf sl by (simp add: add.commute add.left_commute)
qed

lemma extract_unclosed:
  assumes "c = CHR ''{'' \<or> c = CHR ''[''"
    and "CHR ''{'' \<notin> set pre" and "CHR ''['' \<notin> set pre"
    and "closing c \<notin> set rest"
  shows "extract_json_text (pre @ [c] @ rest) = []"
proof -
  let ?s = "pre @ [c] @ rest"
  have start: "(let first_brace = py_find ?s CHR ''{'';
              first_bracket = py_find ?s CHR ''[''
          in if first_brace \<noteq> -1 \<and> (first_bracket = -1 \<or> first_brace < first_bracket)
             then first_brace
             else if first_bracket \<noteq> -1 then first_bracket
             else -1) = int (length pre)"
    using json_start_first[OF assms(1-3), of rest] by simp
  have ch: "?s ! length pre = c" by simp
  have "closing c \<noteq> c" using assms(1) by (auto simp: closing_def)
  then have "closing c \<notin> set ([c] @ rest)" using assms(4) by simp
  then have lt: "py_rfind (pre @ ([c] @ rest)) (closing c) < int (length pre)"
    by (rule py_rfind_before)
  have ge: "- 1 \<le> py_rfind ?s (closing c)"
    using py_find_bounds[of "rev ?s" "closing c"] by (auto simp: py_rfind_def Let_def)
  have "py_slice ?s (int (length pre)) (py_rfind ?s (closing c) + 1) = []"
    using lt ge by (intro py_slice_empty) auto
  then show ?thesis
    unfolding extract_json_text_def start[unfolded Let_def] Let_def
    using ch by simp
qed

lemma extract_nothing:
  assumes "CHR ''{'' \<notin> set s" and "CHR ''['' \<notin> set s"
  shows "extract_json_text s = s"
  using assms by (simp add: extract_json_text_def py_find_none)

lemma extract_is_candidate: "extract_json_text s = candidate_as_claimed s"
proof (cases "dropWhile (\<lambda>c. c \<noteq> CHR ''{'' \<and> c \<noteq> CHR ''['') s")
  case Nil
  then have "CHR ''{'' \<notin> set s" "CHR ''['' \<notin> set s"
    by (auto simp: dropWhile_eq_Nil_conv)
  then have "extract_json_text s = s" by (rule extract_nothing)
  moreover have "candidate_as_claimed s = s"
    unfolding candidate_as_claimed_def Nil by simp
  ultimately show ?thesis by simp
next
  case (Cons c rest)
  let ?pre = "takeWhile (\<lambda>c. c \<noteq> CHR ''{'' \<and> c \<noteq> CHR ''['') s"
  have s: "s = ?pre @ [c] @ rest"
    using Cons takeWhile_dropWhile_id[of "\<lambda>c. c \<noteq> CHR ''{'' \<and> c \<noteq> CHR ''[''" s] by simp
  have pre: "CHR ''{'' \<notin> set ?pre" "CHR ''['' \<notin> set ?pre"
    by (auto dest: set_takeWhileD)
  have c: "c = CHR ''{'' \<or> c = CHR ''[''"
    using Cons hd_dropWhile[of "\<lambda>c. c \<noteq> CHR ''{'' \<and> c \<noteq> CHR ''[''" s] by auto
  show ?thesis
  proof (cases "closing c \<in> set rest")
    case False
    have "extract_json_text (?pre @ [c] @ rest) = []"
      by (rule extract_unclosed[OF c pre False])
    moreover have "candidate_as_claimed s = []"
      unfolding candidate_as_claimed_def Cons using False by simp
    ultimately show ?thesis using s by simp
  next
    case True
    then obtain mid post where rest: "rest = mid @ closing c # post" and post: "closing c \<notin> set post"
      by (meson split_list_last)
    have "extract_json_text (?pre @ [c] @ mid @ [closing c] @ post) = [c] @ mid @ [closing c]"
      by (rule extract_closed[OF c pre post])
    moreover have "rev (dropWhile (\<lambda>x. x \<noteq> closing c) (rev rest)) = mid @ [closing c]"
      using post by (auto simp add: rest dropWhile_append3)
    moreover have "candidate_as_claimed s = c # rev (dropWhile (\<lambda>x. x \<noteq> closing c) (rev rest))"
      unfolding candidate_as_claimed_def Cons using True by simp
    ultimately show ?thesis using s rest by simp
  qed
qed

lemma parse_or_error_cases:
  "(\<forall>v. json_loads lib s = Inr v \<longrightarrow>
       (if isinstance_dict v \<or> isinstance_list v then parse_or_error lib raw s = v
        else parse_or_error lib raw s
               = error_record ''Invalid JSON type'' (str_of lib v)
                   [(''parsing_error'',
                     JString ''LLM did not return a JSON object or array as requested.'')]))
   \<and> (\<forall>e. json_loads lib s = Inl e \<longrightarrow>
         parse_or_error lib raw s
           = error_record (if exc_cls e = JSONDecodeError then ''JSON parsing failed''
                           else ''Unexpected parsing error'') raw
               [(if exc_cls e = JSONDecodeError then ''parsing_error'' else ''error_details'',
                 JString (exc_str e))])"
  by (auto simp: parse_or_error_def)

lemma error_record_is [simp]: "is_error_record (error_record err raw extra)"
  by (simp add: error_record_def)

lemma fenced_reply_candidate:
  "candidate_as_claimed (py_strip fenced_reply) = ''{\"relevance_score\":8}''"
  by code_simp

lemma fenced_reply_no_marker:
  "\<not> startswith fenced_reply cross_mark \<and> \<not> startswith fenced_reply warning_sign"
  by code_simp

text \<open>
  Claim C6, as amended. A response that starts with one of the two failure
  markers is not parsed: it yields the error record \<open>LLM API call failed\<close>. Every
  other response is handled as the specification says: the candidate is cut
  from the trimmed text as \<open>candidate_as_claimed\<close> describes and parsed; a parsed
  object or array is returned, any other parsed value and any exception of
  the parser yield an error record, and nothing is raised. Whatever string
  \<open>call_llm_api\<close> returns, \<open>call_llm_api_json\<close> returns what \<open>json_from_text\<close>
  makes of it. The fenced reply of the scenario yields the object
  \<open>{"relevance_score": 8}\<close>, given that \<open>json.loads\<close> parses that text so.
\<close>

theorem json_extracted_as_specified_unless_marked_failed:
  "(\<not> startswith raw cross_mark \<and> \<not> startswith raw warning_sign \<longrightarrow>
      json_from_text lib raw = json_from_text_as_claimed lib raw)
   \<and> (startswith raw cross_mark \<or> startswith raw warning_sign \<longrightarrow>
      json_from_text lib raw = error_record ''LLM API call failed'' raw [])
   \<and> (\<forall>v. json_loads lib (candidate_as_claimed (py_strip raw)) = Inr v \<longrightarrow>
         json_from_text_as_claimed lib raw
           = (if isinstance_dict v \<or> isinstance_list v then v
              else error_record ''Invalid JSON type'' (str_of lib v)
                     [(''parsing_error'',
                       JString ''LLM did not return a JSON object or array as requested.'')]))
   \<and> (\<forall>e. json_loads lib (candidate_as_claimed (py_strip raw)) = Inl e \<longrightarrow>
         json_from_text_as_claimed lib raw
           = error_record (if exc_cls e = JSONDecodeError then ''JSON parsing failed''
                           else ''Unexpected parsing error'') (py_strip raw)
               [(if exc_cls e = JSONDecodeError then ''parsing_error'' else ''error_details'',
                 JString (exc_str e))]
         \<and> is_error_record (json_from_text_as_claimed lib raw))
   \<and> (call_llm_api lib post uniform role (user_prompt @ json_only_suffix) provider max_tokens
          max_retries st = (JString raw, st') \<longrightarrow>
        call_llm_api_json lib post uniform role user_prompt provider max_tokens max_retries st
          = (Inr (json_from_text lib raw), st'))
   \<and> (json_loads lib ''{\"relevance_score\":8}'' = Inr (JObject [(''relevance_score'', JInt 8)]) \<longrightarrow>
        json_from_text lib fenced_reply = JObject [(''relevance_score'', JInt 8)])"
proof (intro conjI allI impI)
  assume "\<not> startswith raw cross_mark \<and> \<not> startswith raw warning_sign"
  then show "json_from_text lib raw = json_from_text_as_claimed lib raw"
    by (simp add: json_from_text_def json_from_text_as_claimed_def extract_is_candidate Let_def)
next
  assume "startswith raw cross_mark \<or> startswith raw warning_sign"
  then show "json_from_text lib raw = error_record ''LLM API call failed'' raw []"
    by (auto simp: json_from_text_def)
next
  fix v assume "json_loads lib (candidate_as_claimed (py_strip raw)) = Inr v"
  then show "json_from_text_as_claimed lib raw
           = (if isinstance_dict v \<or> isinstance_list v then v
              else error_record ''Invalid JSON type'' (str_of lib v)
                     [(''parsing_error'',
                       JString ''LLM did not return a JSON object or array as requested.'')])"
    by (simp add: json_from_text_as_claimed_def parse_or_error_def)
next
  fix e assume e: "json_loads lib (candidate_as_claimed (py_strip raw)) = Inl e"
  then show eq: "json_from_text_as_claimed lib raw
           = error_record (if exc_cls e = JSONDecodeError then ''JSON parsing failed''
                           else ''Unexpected parsing error'') (py_strip raw)
               [(if exc_cls e = JSONDecodeError then ''parsing_error'' else ''error_details'',
                 JString (exc_str e))]"
    by (simp add: json_from_text_as_claimed_def parse_or_error_def)
  show "is_error_record (json_from_text_as_claimed lib raw)"
    unfolding eq by (rule error_record_is)
next
  assume "call_llm_api lib post uniform role (user_prompt @ json_only_suffix) provider max_tokens
          max_retries st = (JString raw, st')"
  then show "call_llm_api_json lib post uniform role user_prompt provider max_tokens max_retries st
          = (Inr (json_from_text lib raw), st')"
    by (simp add: call_llm_api_json_def)
next
  assume "json_loads lib ''{\"relevance_score\":8}'' = Inr (JObject [(''relevance_score'', JInt 8)])"
  then show "json_from_text lib fenced_reply = JObject [(''relevance_score'', JInt 8)]"
    using fenced_reply_no_marker
    by (simp add: json_from_text_def extract_is_candidate fenced_reply_candidate
          parse_or_error_def Let_def)
qed

theorem json_extracted_as_specified_unless_marked_failed_witness:
  "json_from_text sample_lib fenced_reply = JObject [(''relevance_score'', JInt 8)]
   \<and> json_from_text sample_lib (cross_mark @ '' Max retries (3) exceeded'')
       = error_record ''LLM API call failed'' (cross_mark @ '' Max retries (3) exceeded'') []
   \<and> json_from_text sample_lib fenced_reply = json_from_text_as_claimed sample_lib fenced_reply"
proof -
  have a: "json_loads sample_lib ''{\"relevance_score\":8}''
             = Inr (JObject [(''relevance_score'', JInt 8)])"
    by (simp add: sample_lib_def)
  have b: "startswith (cross_mark @ '' Max retries (3) exceeded'') cross_mark
           \<or> startswith (cross_mark @ '' Max retries (3) exceeded'') warning_sign"
    by (simp add: startswith_def)
  show ?thesis
    using json_extracted_as_specified_unless_marked_failed[of fenced_reply sample_lib] a
      json_extracted_as_specified_unless_marked_failed[of
        "cross_mark @ '' Max retries (3) exceeded''" sample_lib] b
      fenced_reply_no_marker
    by blast
qed

text \<open>
  Claim C6 as stated fails on a response that starts with a marker: the text
  \<open>{}\<close> that the claimed extraction would parse to the empty object is never
  parsed.
\<close>

theorem marked_response_is_not_parsed:
  "json_from_text_as_claimed sample_lib (warning_sign @ '' {}'') = JObject []
   \<and> json_from_text sample_lib (warning_sign @ '' {}'')
       = JObject [(''error'', JString ''LLM API call failed''),
                  (''raw_response'', JString (warning_sign @ '' {}''))]"
proof -
  have "py_strip (warning_sign @ '' {}'') = warning_sign @ '' {}''"
    by code_simp
  moreover have "candidate_as_claimed (warning_sign @ '' {}'') = ''{}''"
    by code_simp
  ultimately have "json_from_text_as_claimed sample_lib (warning_sign @ '' {}'') = JObject []"
    by (simp add: json_from_text_as_claimed_def parse_or_error_def sample_lib_def)
  moreover have "json_from_text sample_lib (warning_sign @ '' {}'')
       = JObject [(''error'', JString ''LLM API call failed''),
                  (''raw_response'', JString (warning_sign @ '' {}''))]"
    by (simp add: json_from_text_def startswith_def error_record_def)
  ultimately show ?thesis by simp
qed

section \<open>Properties of the course analysis\<close>











section \<open>Properties of the ranking\<close>

lemma map_of_dict_set: "map_of (dict_set kvs key v) key' = (if key' = key then Some v else map_of kvs key')"
  by (induction kvs key v rule: dict_set.induct) auto

lemma relevance_score_with_analysis [simp]:
  "relevance_score (with_analysis items analysis) = attached_score analysis"
  by (simp add: relevance_score_def with_analysis_def map_of_dict_set)




















section \<open>Properties of the resume enhancement wrapper\<close>

lemma call_llm_api_refused:
  assumes "llm_cache st (role, user_prompt, ''openrouter'', max_tokens) = None"
  shows "call_llm_api lib refusing_post uniform role user_prompt ''openrouter'' max_tokens 3 st
       = (JString refused_msg,
          (after_retries uniform 2 st)\<lparr>requests_sent := requests_sent st + 3\<rparr>)"
proof -
  have r: "\<forall>j<2. retryable (refusing_post (requests_sent st + j) (role, user_prompt, max_tokens))"
    by (simp add: refusing_post_def retryable_def)
  have last: "refusing_post (requests_sent (after_retries uniform 2 st)) (role, user_prompt, max_tokens)
       = Raised (PyExc RequestException ''connection refused'')"
    by (simp add: refusing_post_def)
  have three: "int (Suc 2) = 3" by simp
  have s3: "str_int 3 = ''3''"
    by (simp add: str_int_def str_nat.simps)
  have step: "attempt_step lib refusing_post uniform role user_prompt ''openrouter'' max_tokens 3 2
           (after_retries uniform 2 st)
       = Return (JString refused_msg)
           ((after_retries uniform 2 st)\<lparr>requests_sent := requests_sent st + 3\<rparr>)"
    using attempt_step_last_raised[where post=refusing_post and st="after_retries uniform 2 st"
        and lib=lib and uniform=uniform and provider="''openrouter''" and attempt=2
        and max_retries=3, OF last three]
    by (simp add: s3 refused_msg_def)
  have "retry_loop lib refusing_post uniform role user_prompt ''openrouter'' max_tokens 3 0 st
       = (JString refused_msg,
          (after_retries uniform 2 st)\<lparr>requests_sent := requests_sent st + 3\<rparr>)"
    using retry_loop_returns_at[where post=refusing_post and st=st and k=2 and max_retries=3
        and lib=lib and uniform=uniform and provider="''openrouter''" and role=role
        and user_prompt=user_prompt and max_tokens=max_tokens, OF r _ step]
    by simp
  then show ?thesis by (simp add: call_llm_api_miss[OF assms])
qed

lemma extract_json_of_refused_msg:
  "extract_json_from_llm_output (JString refused_msg) = Inr refused_msg"
  by code_simp

lemma refused_msg_not_json:
  "json_loads sample_lib refused_msg
     = Inl (PyExc JSONDecodeError ''Expecting value: line 1 column 1 (char 0)'')"
  by (simp add: sample_lib_def refused_msg_def cross_mark_def)

lemma clean_llm_output_refused_msg:
  "clean_llm_output (JString refused_msg) = Inr (JString refused_msg)"
  by code_simp

lemma core_info_when_refused:
  assumes "llm_cache st = Map.empty"
  shows "extract_resume_core_info sample_lib refusing_post uniform resume_text st
       = (default_core_info, (after_retries uniform 2 st)\<lparr>requests_sent := requests_sent st + 3\<rparr>)"
proof -
  have miss: "llm_cache st (core_info_role, core_info_prompt @ resume_text, ''openrouter'', 500) = None"
    by (simp add: assms)
  show ?thesis
    by (simp add: extract_resume_core_info_def call_llm_api_refused[OF miss]
          extract_json_of_refused_msg refused_msg_not_json try_bind_def)
qed

lemma enhance_resume_when_refused:
  assumes "llm_cache st = Map.empty"
  shows "enhance_resume sample_lib refusing_post uniform resume_text target_job_role st
       = (Inr (JString refused_msg),
          (after_retries uniform 2
             ((after_retries uniform 2 st)\<lparr>requests_sent := requests_sent st + 3\<rparr>))
          \<lparr>requests_sent := requests_sent st + 6\<rparr>)"
proof -
  let ?st1 = "(after_retries uniform 2 st)\<lparr>requests_sent := requests_sent st + 3\<rparr>"
  have c: "llm_cache ?st1 = Map.empty" by (simp add: assms)
  have miss: "\<And>prompt. llm_cache ?st1 (editor_role, prompt, ''openrouter'', 1500) = None"
    by (simp add: assms)
  have g: "py_get default_core_info ''headline'' (JString []) = Inr (JString [])"
    "py_get default_core_info ''summary'' (JString []) = Inr (JString [])"
    "py_get default_core_info ''skills'' JNull = Inr (JArray [])"
    "py_get default_core_info ''job_title'' target_job_role = Inr (JString [])"
    by (simp_all add: default_core_info_def)
  have j: "py_join '', '' [] = Inr []" by code_simp
  show ?thesis
    by (simp add: enhance_resume_def core_info_when_refused[OF assms] g j try_bind_def
          call_llm_api_refused[OF miss])
qed

text \<open>
  Claim C3 fails where the client gives up: with every request refused,
  \<open>enhance_resume\<close> returns the client's failure string and raises nothing, so
  the wrapper cleans and returns that string and never calls the local model,
  although the local model would have answered the fallback prompt.
\<close>

theorem failure_string_returned_without_local_fallback:
  "clean_enhance_resume sample_lib refusing_post (\<lambda>n. 0) willing_local_llm
       ''John Doe resume text'' ''Data Scientist'' fresh_client
     = (JString (cross_mark @ '' Request failed after 3 attempts: connection refused''),
        \<lparr>llm_cache = Map.empty, requests_sent = 6, slept = [1, 2, 1, 2]\<rparr>,
        [])
   \<and> handle_llm_fallback willing_local_llm editor_role
        (fallback_prompt ''John Doe resume text'' ''Data Scientist'') 1200
     = JString ''Enhanced resume for John Doe''"
proof -
  have c: "llm_cache fresh_client = Map.empty" by (simp add: fresh_client_def)
  have two: "[0..<2] = [0, Suc 0]" by (simp add: upt_rec)
  have a: "clean_enhance_resume sample_lib refusing_post (\<lambda>n. 0) willing_local_llm
       ''John Doe resume text'' ''Data Scientist'' fresh_client
     = (JString refused_msg,
        \<lparr>llm_cache = Map.empty, requests_sent = 6, slept = [1, 2, 1, 2]\<rparr>, [])"
    unfolding clean_enhance_resume_def enhance_resume_when_refused[OF c]
    by (simp add: clean_llm_output_refused_msg try_bind_def after_retries_def fresh_client_def two)
  have b: "handle_llm_fallback willing_local_llm editor_role
        (fallback_prompt ''John Doe resume text'' ''Data Scientist'') 1200
     = JString ''Enhanced resume for John Doe''"
    by (simp add: handle_llm_fallback_def willing_local_llm_def startswith_def cross_mark_def)
  from a b show ?thesis by (simp add: refused_msg_def)
qed

end
